theory Spec2Isabelle
  imports Complex_Main "HOL-Library.AList"
begin

section \<open>Values, dictionaries and external capabilities\<close>

text \<open>
  The program is \<^verbatim>\<open>pet_blockchain.py\<close>. Request-derived text values are Python
  \<^verbatim>\<open>str\<close> or \<^verbatim>\<open>None\<close>: \<open>string option\<close>. The viewer key of
  \<^verbatim>\<open>view_pet_profile\<close> and the finder key of \<^verbatim>\<open>report_pet_found\<close> are hashed
  after the registry has been changed, so what \<^verbatim>\<open>hashed_key\<close> does on a value that
  is not text matters there: these two keys are arbitrary Python values (\<open>pyvalue\<close>
  below), as the JSON body of a request delivers them. A transaction is an
  \<^verbatim>\<open>OrderedDict\<close> with string keys: an association list in insertion order whose
  values are JSON values. Clock readings (\<^verbatim>\<open>time()\<close>) are explicit arguments,
  one per call of \<^verbatim>\<open>time()\<close> in the order the source makes them.
\<close>

type_synonym pyobj = "string option"

datatype json =
    JNull
  | JStr string
  | JInt int
  | JFloat real
  | JList "json list"
  | JDict "(string \<times> json) list"

type_synonym transaction = "(string \<times> json) list"

datatype py_error = IndexError | TypeError | AttributeError | UnicodeEncodeError

definition js :: "pyobj \<Rightarrow> json" where
  "js v = (case v of None \<Rightarrow> JNull | Some s \<Rightarrow> JStr s)"

text \<open>\<^verbatim>\<open>str(v)\<close> as an f-string renders a text value.\<close>

definition py_str :: "pyobj \<Rightarrow> string" where
  "py_str v = (case v of None \<Rightarrow> ''None'' | Some s \<Rightarrow> s)"

text \<open>\<^verbatim>\<open>d.get(k)\<close> and \<^verbatim>\<open>d.get(k, default)\<close> on a dictionary of text values,
  and \<^verbatim>\<open>d.get(k)\<close> on a dictionary of JSON values.\<close>

definition dict_get :: "(string \<rightharpoonup> pyobj) \<Rightarrow> string \<Rightarrow> pyobj" where
  "dict_get d k = (case d k of None \<Rightarrow> None | Some v \<Rightarrow> v)"

definition dict_get_default :: "(string \<rightharpoonup> pyobj) \<Rightarrow> string \<Rightarrow> pyobj \<Rightarrow> pyobj" where
  "dict_get_default d k dflt = (case d k of None \<Rightarrow> dflt | Some v \<Rightarrow> v)"

definition json_get :: "(string \<rightharpoonup> json) \<Rightarrow> string \<Rightarrow> json" where
  "json_get d k = (case d k of None \<Rightarrow> JNull | Some v \<Rightarrow> v)"

definition json_get_default :: "(string \<rightharpoonup> json) \<Rightarrow> string \<Rightarrow> json \<Rightarrow> json" where
  "json_get_default d k dflt = (case d k of None \<Rightarrow> dflt | Some v \<Rightarrow> v)"

text \<open>\<^verbatim>\<open>str(n)\<close> of a non-negative integer: its decimal digits.\<close>

definition digit_char :: "nat \<Rightarrow> char" where
  "digit_char d = ''0123456789'' ! d"

fun str_nat_fuel :: "nat \<Rightarrow> nat \<Rightarrow> string" where
  "str_nat_fuel 0 n = []"
| "str_nat_fuel (Suc f) n =
     (if n < 10 then [digit_char n] else str_nat_fuel f (n div 10) @ [digit_char (n mod 10)])"

definition str_nat :: "nat \<Rightarrow> string" where
  "str_nat n = str_nat_fuel (Suc n) n"

text \<open>
  The library primitives the program consumes are parameters: the SHA-256 hex digest
  (\<^verbatim>\<open>hashlib.sha256(s.encode()).hexdigest()\<close>), \<^verbatim>\<open>json.dumps(v, sort_keys=True)\<close>,
  the rendering of a float in an f-string, and the body of the \<^verbatim>\<open>try\<close> block of
  \<^verbatim>\<open>verify_transaction_signature\<close> (RSA key import, SHA-1, PKCS#1 v1.5
  verification), which returns a truth value or raises (\<open>None\<close>).
\<close>

record capabilities =
  sha256_hexdigest :: "string \<Rightarrow> string"
  json_dumps :: "json \<Rightarrow> string"
  str_float :: "real \<Rightarrow> string"
  pkcs1_verify :: "pyobj \<Rightarrow> pyobj \<Rightarrow> (pyobj \<times> pyobj \<times> real) \<Rightarrow> bool option"

definition MINING_SENDER :: string where
  "MINING_SENDER = ''BLOCKCHAIN_REWARD''"

definition MINING_REWARD :: real where
  "MINING_REWARD = 1"

definition MINING_DIFFICULTY :: nat where
  "MINING_DIFFICULTY = 2"

definition hashed_key :: "capabilities \<Rightarrow> pyobj \<Rightarrow> string" where
  "hashed_key caps raw_key =
     (case raw_key of
        None \<Rightarrow> ''UNKNOWN_KEY''
      | Some s \<Rightarrow> if s = [] then ''UNKNOWN_KEY'' else take 24 (sha256_hexdigest caps s))"

text \<open>
  The same function on an arbitrary value. \<^verbatim>\<open>not raw_key\<close> holds of \<^verbatim>\<open>None\<close>,
  \<^verbatim>\<open>False\<close>, zero and the empty text, list and dictionary. On any other value
  \<^verbatim>\<open>raw_key.encode()\<close> is evaluated: only a \<^verbatim>\<open>str\<close> has the method (an
  \<^verbatim>\<open>AttributeError\<close> otherwise), and on a \<^verbatim>\<open>str\<close> that holds a lone surrogate
  (which a JSON escape can deliver; the constructor \<open>PyStrSurrogate\<close>) it raises
  \<^verbatim>\<open>UnicodeEncodeError\<close>.
\<close>

datatype pyvalue =
    PyNone
  | PyBool bool
  | PyInt int
  | PyFloat real
  | PyStr string
  | PyStrSurrogate
  | PyList "json list"
  | PyDict "(string \<times> json) list"

fun truthy :: "pyvalue \<Rightarrow> bool" where
  "truthy PyNone = False"
| "truthy (PyBool b) = b"
| "truthy (PyInt i) = (i \<noteq> 0)"
| "truthy (PyFloat r) = (r \<noteq> 0)"
| "truthy (PyStr s) = (s \<noteq> [])"
| "truthy PyStrSurrogate = True"
| "truthy (PyList xs) = (xs \<noteq> [])"
| "truthy (PyDict d) = (d \<noteq> [])"

fun str_encode :: "pyvalue \<Rightarrow> py_error + string" where
  "str_encode (PyStr s) = Inr s"
| "str_encode PyStrSurrogate = Inl UnicodeEncodeError"
| "str_encode PyNone = Inl AttributeError"
| "str_encode (PyBool b) = Inl AttributeError"
| "str_encode (PyInt i) = Inl AttributeError"
| "str_encode (PyFloat r) = Inl AttributeError"
| "str_encode (PyList xs) = Inl AttributeError"
| "str_encode (PyDict d) = Inl AttributeError"

definition hashed_key_value :: "capabilities \<Rightarrow> pyvalue \<Rightarrow> py_error + string" where
  "hashed_key_value caps raw_key =
     (if \<not> truthy raw_key then Inr ''UNKNOWN_KEY''
      else (case str_encode raw_key of
              Inl e \<Rightarrow> Inl e
            | Inr s \<Rightarrow> Inr (take 24 (sha256_hexdigest caps s))))"

text \<open>A text value or \<^verbatim>\<open>None\<close> as a Python value.\<close>

definition text_value :: "pyobj \<Rightarrow> pyvalue" where
  "text_value v = (case v of None \<Rightarrow> PyNone | Some s \<Rightarrow> PyStr s)"

section \<open>The pet registry\<close>

datatype pet_status = Active | Lost

record vet_record =
  record_id :: string
  record_type :: json
  vet_name :: json
  vet_clinic :: json
  vet_phone :: json
  procedure :: json
  vet_notes :: json
  date :: json
  next_due_date :: json
  recorded_at :: real

text \<open>
  A profile is the dictionary built by \<^verbatim>\<open>create_pet_profile\<close>. The keys that
  \<^verbatim>\<open>mark_pet_lost\<close> and \<^verbatim>\<open>mark_pet_found\<close> add later are optional fields:
  \<open>None\<close> is an absent key, \<open>Some v\<close> a key set to \<open>v\<close>.
\<close>

record pet_profile =
  pet_id :: string
  name :: pyobj
  breed :: pyobj
  species :: pyobj
  birth_date :: pyobj
  color :: pyobj
  weight :: pyobj
  microchip_id :: pyobj
  photo :: pyobj
  owner_public_key_hash :: string
  owner_public_key :: pyobj
  owner_name :: pyobj
  owner_phone :: pyobj
  owner_email :: pyobj
  registered_at :: real
  vet_records :: "vet_record list"
  view_count :: int
  status :: pet_status
  lost_location :: "pyobj option"
  lost_description :: "pyobj option"
  lost_since :: "real option"
  found_by :: "pyobj option"
  found_at :: "real option"

record PetRegistry =
  pets :: "string \<rightharpoonup> pet_profile"

definition generate_pet_id :: "capabilities \<Rightarrow> pyobj \<Rightarrow> pyobj \<Rightarrow> real \<Rightarrow> string" where
  "generate_pet_id caps chip owner_key t =
     take 16 (sha256_hexdigest caps
       (py_str chip @ ''_'' @ py_str owner_key @ ''_'' @ str_float caps t))"

text \<open>The dictionary \<^verbatim>\<open>profile\<close> that \<^verbatim>\<open>create_pet_profile\<close> builds.\<close>

definition new_profile ::
  "capabilities \<Rightarrow> string \<Rightarrow> (string \<rightharpoonup> pyobj) \<Rightarrow> real \<Rightarrow> pet_profile" where
  "new_profile caps pid pet_data t =
     (let public_hash = hashed_key caps (dict_get pet_data ''owner_public_key'')
      in \<lparr> pet_id = pid,
           name = dict_get pet_data ''name'',
           breed = dict_get pet_data ''breed'',
           species = dict_get_default pet_data ''species'' (Some ''dog''),
           birth_date = dict_get pet_data ''birth_date'',
           color = dict_get pet_data ''color'',
           weight = dict_get pet_data ''weight'',
           microchip_id = dict_get pet_data ''microchip_id'',
           photo = dict_get pet_data ''photo'',
           owner_public_key_hash = public_hash,
           owner_public_key = dict_get pet_data ''owner_public_key'',
           owner_name = dict_get pet_data ''owner_name'',
           owner_phone = dict_get pet_data ''owner_phone'',
           owner_email = dict_get pet_data ''owner_email'',
           registered_at = t,
           vet_records = [],
           view_count = 0,
           status = Active,
           lost_location = None,
           lost_description = None,
           lost_since = None,
           found_by = None,
           found_at = None \<rparr>)"

definition create_pet_profile ::
  "capabilities \<Rightarrow> PetRegistry \<Rightarrow> string \<Rightarrow> (string \<rightharpoonup> pyobj) \<Rightarrow> real
     \<Rightarrow> pet_profile \<times> PetRegistry" where
  "create_pet_profile caps reg pid pet_data t =
     (let profile = new_profile caps pid pet_data t
      in (profile, reg\<lparr>pets := (pets reg)(pid \<mapsto> profile)\<rparr>))"

text \<open>\<^verbatim>\<open>add_vet_record\<close> reads the clock three times: for the record id, for the
  default of \<^verbatim>\<open>date\<close> (evaluated whether or not the key is present) and for the
  timestamp.\<close>

definition new_vet_record ::
  "capabilities \<Rightarrow> string \<Rightarrow> (string \<rightharpoonup> json) \<Rightarrow> real \<Rightarrow> real \<Rightarrow> real \<Rightarrow> vet_record" where
  "new_vet_record caps pid rcd t1 t2 t3 =
     \<lparr> record_id = take 12 (sha256_hexdigest caps (pid @ ''_'' @ str_float caps t1)),
       record_type = json_get rcd ''record_type'',
       vet_name = json_get rcd ''vet_name'',
       vet_clinic = json_get rcd ''vet_clinic'',
       vet_phone = json_get rcd ''vet_phone'',
       procedure = json_get rcd ''procedure'',
       vet_notes = json_get rcd ''notes'',
       date = json_get_default rcd ''date'' (JFloat t2),
       next_due_date = json_get rcd ''next_due_date'',
       recorded_at = t3 \<rparr>"

definition add_vet_record ::
  "capabilities \<Rightarrow> PetRegistry \<Rightarrow> string \<Rightarrow> (string \<rightharpoonup> json) \<Rightarrow> real \<Rightarrow> real \<Rightarrow> real
     \<Rightarrow> vet_record option \<times> PetRegistry" where
  "add_vet_record caps reg pid rcd t1 t2 t3 =
     (case pets reg pid of
        None \<Rightarrow> (None, reg)
      | Some pet \<Rightarrow>
          (let rec = new_vet_record caps pid rcd t1 t2 t3
           in (Some rec,
               reg\<lparr>pets := (pets reg)(pid \<mapsto> pet\<lparr>vet_records := vet_records pet @ [rec]\<rparr>)\<rparr>)))"

definition mark_pet_lost ::
  "PetRegistry \<Rightarrow> string \<Rightarrow> pyobj \<Rightarrow> pyobj \<Rightarrow> real \<Rightarrow> bool \<times> PetRegistry" where
  "mark_pet_lost reg pid location description t =
     (case pets reg pid of
        None \<Rightarrow> (False, reg)
      | Some pet \<Rightarrow>
          (True, reg\<lparr>pets := (pets reg)(pid \<mapsto>
             pet\<lparr>status := Lost, lost_location := Some location,
                 lost_description := Some description, lost_since := Some t\<rparr>)\<rparr>))"

definition mark_pet_found ::
  "PetRegistry \<Rightarrow> string \<Rightarrow> pyobj \<Rightarrow> real \<Rightarrow> bool \<times> PetRegistry" where
  "mark_pet_found reg pid finder t =
     (case pets reg pid of
        None \<Rightarrow> (False, reg)
      | Some pet \<Rightarrow>
          (True, reg\<lparr>pets := (pets reg)(pid \<mapsto>
             pet\<lparr>status := Active, found_by := Some finder, found_at := Some t\<rparr>)\<rparr>))"

definition increment_view_count :: "PetRegistry \<Rightarrow> string \<Rightarrow> int \<times> PetRegistry" where
  "increment_view_count reg pid =
     (case pets reg pid of
        None \<Rightarrow> (0, reg)
      | Some pet \<Rightarrow>
          (view_count pet + 1,
           reg\<lparr>pets := (pets reg)(pid \<mapsto> pet\<lparr>view_count := view_count pet + 1\<rparr>)\<rparr>))"

definition get_pet :: "PetRegistry \<Rightarrow> string \<Rightarrow> pet_profile option" where
  "get_pet reg pid = pets reg pid"

section \<open>The blockchain\<close>

record block =
  block_number :: nat
  timestamp :: real
  transactions :: "transaction list"
  nonce :: nat
  previous_hash :: string

record Blockchain =
  unconfirmed_transactions :: "transaction list"
  chain :: "block list"
  nodes :: "string set"
  node_id :: string
  pet_registry :: PetRegistry

text \<open>A block is the dictionary built by \<^verbatim>\<open>create_block\<close>; this is the JSON value
  that \<^verbatim>\<open>json.dumps\<close> receives for it.\<close>

definition pool_json :: "transaction list \<Rightarrow> json" where
  "pool_json txs = JList (map JDict txs)"

definition block_json :: "block \<Rightarrow> json" where
  "block_json b =
     JDict [(''block_number'', JInt (int (block_number b))),
            (''timestamp'', JFloat (timestamp b)),
            (''transactions'', pool_json (transactions b)),
            (''nonce'', JInt (int (nonce b))),
            (''previous_hash'', JStr (previous_hash b))]"

definition create_block :: "Blockchain \<Rightarrow> nat \<Rightarrow> string \<Rightarrow> real \<Rightarrow> block \<times> Blockchain" where
  "create_block bc n prev t =
     (let blk = \<lparr> block_number = length (chain bc) + 1,
                  timestamp = t,
                  transactions = unconfirmed_transactions bc,
                  nonce = n,
                  previous_hash = prev \<rparr>
      in (blk, bc\<lparr>unconfirmed_transactions := [], chain := chain bc @ [blk]\<rparr>))"

text \<open>The constructor: empty pool, chain and registry, then the genesis block.\<close>

definition new_blockchain :: "string \<Rightarrow> real \<Rightarrow> Blockchain" where
  "new_blockchain nid t0 =
     snd (create_block
            \<lparr> unconfirmed_transactions = [], chain = [], nodes = {}, node_id = nid,
              pet_registry = \<lparr> pets = Map.empty \<rparr> \<rparr>
            0 ''00'' t0)"

definition hash :: "capabilities \<Rightarrow> block \<Rightarrow> string" where
  "hash caps b = sha256_hexdigest caps (json_dumps caps (block_json b))"

text \<open>
  The \<^verbatim>\<open>while True\<close> loop of \<^verbatim>\<open>proof_of_work\<close>. It has no bound, so the
  model is a partial function: \<open>None\<close> is a search that never returns.
\<close>

definition valid_guess :: "capabilities \<Rightarrow> transaction list \<Rightarrow> string \<Rightarrow> nat \<Rightarrow> bool" where
  "valid_guess caps pool last_hash n =
     (take MINING_DIFFICULTY
        (sha256_hexdigest caps (json_dumps caps (pool_json pool) @ last_hash @ str_nat n))
      = replicate MINING_DIFFICULTY (CHR ''0''))"

partial_function (option) pow_loop ::
  "capabilities \<Rightarrow> transaction list \<Rightarrow> string \<Rightarrow> nat \<Rightarrow> nat option" where
  "pow_loop caps pool last_hash n =
     (if valid_guess caps pool last_hash n then Some n
      else pow_loop caps pool last_hash (n + 1))"

definition proof_of_work :: "capabilities \<Rightarrow> Blockchain \<Rightarrow> (py_error + nat) option" where
  "proof_of_work caps bc =
     (case chain bc of
        [] \<Rightarrow> Some (Inl IndexError)
      | _ # _ \<Rightarrow>
          map_option Inr
            (pow_loop caps (unconfirmed_transactions bc) (hash caps (last (chain bc))) 0))"

definition verify_transaction_signature ::
  "capabilities \<Rightarrow> pyobj \<Rightarrow> pyobj \<Rightarrow> (pyobj \<times> pyobj \<times> real) \<Rightarrow> bool" where
  "verify_transaction_signature caps sender signature tx_data =
     (case pkcs1_verify caps sender signature tx_data of
        None \<Rightarrow> False
      | Some ok \<Rightarrow> ok)"

text \<open>The six \<^verbatim>\<open>OrderedDict\<close> literals of the transactions, keys in the order of
  the source. The amount of a transfer is a number, so \<^verbatim>\<open>float(amount)\<close> is that
  number.\<close>

definition transfer_tx :: "capabilities \<Rightarrow> pyobj \<Rightarrow> pyobj \<Rightarrow> real \<Rightarrow> real \<Rightarrow> transaction" where
  "transfer_tx caps sender recipient amount t =
     [(''sender_public_key_hash'', JStr (hashed_key caps sender)),
      (''recipient_public_key_hash'', JStr (hashed_key caps recipient)),
      (''amount'', JFloat amount),
      (''timestamp'', JFloat t)]"

definition registration_tx ::
  "capabilities \<Rightarrow> string \<Rightarrow> (string \<rightharpoonup> pyobj) \<Rightarrow> pyobj \<Rightarrow> real \<Rightarrow> transaction" where
  "registration_tx caps pid pet_data owner_key t =
     [(''type'', JStr ''PET_REGISTRATION''),
      (''pet_id'', JStr pid),
      (''pet_name'', js (dict_get pet_data ''name'')),
      (''species'', js (dict_get pet_data ''species'')),
      (''microchip_id'', js (dict_get pet_data ''microchip_id'')),
      (''owner_public_key_hash'', JStr (hashed_key caps owner_key)),
      (''timestamp'', JFloat t)]"

definition vet_record_tx ::
  "capabilities \<Rightarrow> string \<Rightarrow> vet_record \<Rightarrow> pyobj \<Rightarrow> real \<Rightarrow> transaction" where
  "vet_record_tx caps pid rc owner_key t =
     [(''type'', JStr ''VET_RECORD''),
      (''pet_id'', JStr pid),
      (''record_id'', JStr (record_id rc)),
      (''record_type'', record_type rc),
      (''vet_name'', vet_name rc),
      (''owner_public_key_hash'', JStr (hashed_key caps owner_key)),
      (''timestamp'', JFloat t)]"

definition profile_view_tx ::
  "string \<Rightarrow> string \<Rightarrow> int \<Rightarrow> real \<Rightarrow> transaction" where
  "profile_view_tx pid viewer_hash count t =
     [(''type'', JStr ''PROFILE_VIEW''),
      (''pet_id'', JStr pid),
      (''viewer_public_key_hash'', JStr viewer_hash),
      (''view_count'', JInt count),
      (''timestamp'', JFloat t)]"

definition pet_lost_tx ::
  "capabilities \<Rightarrow> string \<Rightarrow> pyobj \<Rightarrow> pyobj \<Rightarrow> pyobj \<Rightarrow> real \<Rightarrow> transaction" where
  "pet_lost_tx caps pid location description owner_key t =
     [(''type'', JStr ''PET_LOST''),
      (''pet_id'', JStr pid),
      (''location'', js location),
      (''description'', js description),
      (''owner_public_key_hash'', JStr (hashed_key caps owner_key)),
      (''timestamp'', JFloat t)]"

definition pet_found_tx ::
  "string \<Rightarrow> string \<Rightarrow> pyobj \<Rightarrow> real \<Rightarrow> transaction" where
  "pet_found_tx pid finder_hash finder_contact t =
     [(''type'', JStr ''PET_FOUND''),
      (''pet_id'', JStr pid),
      (''finder_public_key_hash'', JStr finder_hash),
      (''finder_contact'', js finder_contact),
      (''timestamp'', JFloat t)]"

text \<open>\<^verbatim>\<open>submit_transaction\<close> returns \<^verbatim>\<open>False\<close> (\<open>None\<close>) or the number the
  next block will have.\<close>

definition submit_transaction ::
  "capabilities \<Rightarrow> Blockchain \<Rightarrow> pyobj \<Rightarrow> pyobj \<Rightarrow> pyobj \<Rightarrow> real \<Rightarrow> real
     \<Rightarrow> nat option \<times> Blockchain" where
  "submit_transaction caps bc sender recipient signature amount t =
     (let tx = transfer_tx caps sender recipient amount t
      in if sender = Some MINING_SENDER
         then (Some (length (chain bc) + 1),
               bc\<lparr>unconfirmed_transactions := unconfirmed_transactions bc @ [tx]\<rparr>)
         else if \<not> verify_transaction_signature caps sender signature
                     (sender, recipient, amount)
         then (None, bc)
         else (Some (length (chain bc) + 1),
               bc\<lparr>unconfirmed_transactions := unconfirmed_transactions bc @ [tx]\<rparr>))"

definition register_pet ::
  "capabilities \<Rightarrow> Blockchain \<Rightarrow> (string \<rightharpoonup> pyobj) \<Rightarrow> pyobj \<Rightarrow> real \<Rightarrow> real \<Rightarrow> real
     \<Rightarrow> string \<times> Blockchain" where
  "register_pet caps bc pet_data owner_key t1 t2 t3 =
     (let pid = generate_pet_id caps
                  (dict_get_default pet_data ''microchip_id'' (Some ''NO_CHIP'')) owner_key t1;
          reg = snd (create_pet_profile caps (pet_registry bc) pid
                       (pet_data(''owner_public_key'' \<mapsto> owner_key)) t2);
          tx = registration_tx caps pid pet_data owner_key t3
      in (pid, bc\<lparr>pet_registry := reg,
                  unconfirmed_transactions := unconfirmed_transactions bc @ [tx]\<rparr>))"

text \<open>\<^verbatim>\<open>add_vet_record_to_pet\<close> returns \<^verbatim>\<open>False\<close> (\<open>None\<close>) or the record id.
  Subscripting the result of \<^verbatim>\<open>add_vet_record\<close> raises when that result is
  \<^verbatim>\<open>None\<close>.\<close>

definition add_vet_record_to_pet ::
  "capabilities \<Rightarrow> Blockchain \<Rightarrow> string \<Rightarrow> (string \<rightharpoonup> json) \<Rightarrow> pyobj
     \<Rightarrow> real \<Rightarrow> real \<Rightarrow> real \<Rightarrow> real \<Rightarrow> py_error + (string option \<times> Blockchain)" where
  "add_vet_record_to_pet caps bc pid rcd owner_key t1 t2 t3 t4 =
     (case get_pet (pet_registry bc) pid of
        None \<Rightarrow> Inr (None, bc)
      | Some pet \<Rightarrow>
          if owner_public_key pet \<noteq> owner_key then Inr (None, bc)
          else (case add_vet_record caps (pet_registry bc) pid rcd t1 t2 t3 of
                  (None, reg) \<Rightarrow> Inl TypeError
                | (Some rc, reg) \<Rightarrow>
                    (let tx = vet_record_tx caps pid rc owner_key t4
                     in Inr (Some (record_id rc),
                             bc\<lparr>pet_registry := reg,
                                unconfirmed_transactions :=
                                  unconfirmed_transactions bc @ [tx]\<rparr>))))"

text \<open>
  \<^verbatim>\<open>view_pet_profile\<close> increments the count in the registry and only then builds the
  transaction: when \<^verbatim>\<open>hashed_key(viewer_public_key)\<close> raises, the call ends with the
  count incremented and nothing appended to the pool. The result is the error raised or
  the value returned, with the state the call leaves.
\<close>

definition view_pet_profile ::
  "capabilities \<Rightarrow> Blockchain \<Rightarrow> string \<Rightarrow> pyvalue \<Rightarrow> real
     \<Rightarrow> (py_error + bool) \<times> Blockchain" where
  "view_pet_profile caps bc pid viewer_key t =
     (if pets (pet_registry bc) pid = None then (Inr False, bc)
      else (let (count, reg) = increment_view_count (pet_registry bc) pid
            in (case hashed_key_value caps viewer_key of
                  Inl e \<Rightarrow> (Inl e, bc\<lparr>pet_registry := reg\<rparr>)
                | Inr h \<Rightarrow>
                    (Inr True,
                     bc\<lparr>pet_registry := reg,
                        unconfirmed_transactions :=
                          unconfirmed_transactions bc @ [profile_view_tx pid h count t]\<rparr>))))"

definition report_pet_lost ::
  "capabilities \<Rightarrow> Blockchain \<Rightarrow> string \<Rightarrow> pyobj \<Rightarrow> pyobj \<Rightarrow> pyobj \<Rightarrow> real \<Rightarrow> real
     \<Rightarrow> bool \<times> Blockchain" where
  "report_pet_lost caps bc pid owner_key location description t1 t2 =
     (case get_pet (pet_registry bc) pid of
        None \<Rightarrow> (False, bc)
      | Some pet \<Rightarrow>
          if owner_public_key pet \<noteq> owner_key then (False, bc)
          else (let reg = snd (mark_pet_lost (pet_registry bc) pid location description t1);
                    tx = pet_lost_tx caps pid location description owner_key t2
                in (True, bc\<lparr>pet_registry := reg,
                             unconfirmed_transactions :=
                               unconfirmed_transactions bc @ [tx]\<rparr>)))"

text \<open>
  \<^verbatim>\<open>report_pet_found\<close> has the same shape: \<^verbatim>\<open>mark_pet_found\<close> runs before
  \<^verbatim>\<open>hashed_key(finder_public_key)\<close>, so a raise leaves the pet marked found and no
  transaction appended.
\<close>

definition report_pet_found ::
  "capabilities \<Rightarrow> Blockchain \<Rightarrow> string \<Rightarrow> pyvalue \<Rightarrow> pyobj \<Rightarrow> real \<Rightarrow> real
     \<Rightarrow> (py_error + bool) \<times> Blockchain" where
  "report_pet_found caps bc pid finder_key finder_contact t1 t2 =
     (case get_pet (pet_registry bc) pid of
        None \<Rightarrow> (Inr False, bc)
      | Some pet \<Rightarrow>
          if status pet \<noteq> Lost then (Inr False, bc)
          else (let reg = snd (mark_pet_found (pet_registry bc) pid finder_contact t1)
                in (case hashed_key_value caps finder_key of
                      Inl e \<Rightarrow> (Inl e, bc\<lparr>pet_registry := reg\<rparr>)
                    | Inr h \<Rightarrow>
                        (Inr True,
                         bc\<lparr>pet_registry := reg,
                            unconfirmed_transactions :=
                              unconfirmed_transactions bc @
                                [pet_found_tx pid h finder_contact t2]\<rparr>))))"

text \<open>
  \<^verbatim>\<open>get_pet_blockchain_history\<close>: the two loops, each appending to the list
  \<^verbatim>\<open>history\<close>. Every transaction is a dictionary, so the \<^verbatim>\<open>isinstance\<close> test
  holds; \<^verbatim>\<open>tx.get("pet_id") == pet_id\<close> compares the value under the key with the
  string. Assigning a key of the copy replaces the value of a key that is present and
  appends the key otherwise.
\<close>

definition pet_id_matches :: "transaction \<Rightarrow> string \<Rightarrow> bool" where
  "pet_id_matches tx pid = (map_of tx ''pet_id'' = Some (JStr pid))"

definition mined_entry :: "block \<Rightarrow> transaction \<Rightarrow> transaction" where
  "mined_entry blk tx =
     AList.update ''block_timestamp'' (JFloat (timestamp blk))
       (AList.update ''block_number'' (JInt (int (block_number blk))) tx)"

definition pending_entry :: "transaction \<Rightarrow> transaction" where
  "pending_entry tx = AList.update ''status'' (JStr ''pending'') tx"

fun scan_block :: "block \<Rightarrow> string \<Rightarrow> transaction list \<Rightarrow> transaction list \<Rightarrow> transaction list" where
  "scan_block blk pid [] history = history"
| "scan_block blk pid (tx # txs) history =
     scan_block blk pid txs
       (if pet_id_matches tx pid then history @ [mined_entry blk tx] else history)"

fun scan_chain :: "block list \<Rightarrow> string \<Rightarrow> transaction list \<Rightarrow> transaction list" where
  "scan_chain [] pid history = history"
| "scan_chain (blk # blks) pid history =
     scan_chain blks pid (scan_block blk pid (transactions blk) history)"

fun scan_pool :: "transaction list \<Rightarrow> string \<Rightarrow> transaction list \<Rightarrow> transaction list" where
  "scan_pool [] pid history = history"
| "scan_pool (tx # txs) pid history =
     scan_pool txs pid
       (if pet_id_matches tx pid then history @ [pending_entry tx] else history)"

definition get_pet_blockchain_history :: "Blockchain \<Rightarrow> string \<Rightarrow> transaction list" where
  "get_pet_blockchain_history bc pid =
     scan_pool (unconfirmed_transactions bc) pid (scan_chain (chain bc) pid [])"

text \<open>
  The \<^verbatim>\<open>/mine\<close> route: the nonce search on the pool as it stands, then the reward
  transaction, then the block on the hash of the last block. \<open>None\<close> is a search that
  never returns.
\<close>

definition mine_block ::
  "capabilities \<Rightarrow> Blockchain \<Rightarrow> real \<Rightarrow> real \<Rightarrow> (py_error + block \<times> Blockchain) option" where
  "mine_block caps bc t1 t2 =
     (case proof_of_work caps bc of
        None \<Rightarrow> None
      | Some (Inl e) \<Rightarrow> Some (Inl e)
      | Some (Inr n) \<Rightarrow>
          (let bc1 = snd (submit_transaction caps bc (Some MINING_SENDER) (Some (node_id bc))
                            (Some []) MINING_REWARD t1)
           in case chain bc1 of
                [] \<Rightarrow> Some (Inl IndexError)
              | _ # _ \<Rightarrow> Some (Inr (create_block bc1 n (hash caps (last (chain bc1))) t2))))"

text \<open>The reward transaction that the \<^verbatim>\<open>/mine\<close> route submits.\<close>

definition reward_tx :: "capabilities \<Rightarrow> Blockchain \<Rightarrow> real \<Rightarrow> transaction" where
  "reward_tx caps bc t =
     transfer_tx caps (Some MINING_SENDER) (Some (node_id bc)) MINING_REWARD t"

text \<open>Each block after the first names the hash of the block before it.\<close>

definition chain_linked :: "capabilities \<Rightarrow> block list \<Rightarrow> bool" where
  "chain_linked caps ch =
     (\<forall>i. 0 < i \<and> i < length ch \<longrightarrow> previous_hash (ch ! i) = hash caps (ch ! (i - 1)))"

section \<open>Runs of the service\<close>

text \<open>
  A call of one public operation with its arguments and clock readings, and the state
  it leaves, whether it returns or raises. \<^verbatim>\<open>add_vet_record_to_pet\<close> and the
  \<^verbatim>\<open>/mine\<close> flow raise before any assignment and leave the state as it was, and
  so do \<^verbatim>\<open>register_pet\<close> and \<^verbatim>\<open>submit_transaction\<close> when \<^verbatim>\<open>hashed_key\<close>
  raises on their key: such a call adds nothing to a run. \<^verbatim>\<open>view_pet_profile\<close> and
  \<^verbatim>\<open>report_pet_found\<close> raise after the registry has been changed and leave that
  change. A mining call whose search never returns has no next state.
\<close>

datatype call =
    RegisterPet "string \<rightharpoonup> pyobj" pyobj real real real
  | AddVetRecord string "string \<rightharpoonup> json" pyobj real real real real
  | ViewProfile string pyvalue real
  | ReportLost string pyobj pyobj pyobj real real
  | ReportFound string pyvalue pyobj real real
  | SubmitTransaction pyobj pyobj pyobj real real
  | Mine real real

fun run_call :: "capabilities \<Rightarrow> call \<Rightarrow> Blockchain \<Rightarrow> Blockchain option" where
  "run_call caps (RegisterPet pet_data k t1 t2 t3) bc =
     Some (snd (register_pet caps bc pet_data k t1 t2 t3))"
| "run_call caps (AddVetRecord pid rcd k t1 t2 t3 t4) bc =
     (case add_vet_record_to_pet caps bc pid rcd k t1 t2 t3 t4 of
        Inl e \<Rightarrow> Some bc
      | Inr (r, bc') \<Rightarrow> Some bc')"
| "run_call caps (ViewProfile pid k t) bc = Some (snd (view_pet_profile caps bc pid k t))"
| "run_call caps (ReportLost pid k loc descr t1 t2) bc =
     Some (snd (report_pet_lost caps bc pid k loc descr t1 t2))"
| "run_call caps (ReportFound pid k contact t1 t2) bc =
     Some (snd (report_pet_found caps bc pid k contact t1 t2))"
| "run_call caps (SubmitTransaction sender recipient sg amount t) bc =
     Some (snd (submit_transaction caps bc sender recipient sg amount t))"
| "run_call caps (Mine t1 t2) bc =
     (case mine_block caps bc t1 t2 of
        None \<Rightarrow> None
      | Some (Inl e) \<Rightarrow> Some bc
      | Some (Inr (blk, bc')) \<Rightarrow> Some bc')"

fun run_calls :: "capabilities \<Rightarrow> call list \<Rightarrow> Blockchain \<Rightarrow> Blockchain option" where
  "run_calls caps [] bc = Some bc"
| "run_calls caps (c # cs) bc =
     (case run_call caps c bc of None \<Rightarrow> None | Some bc' \<Rightarrow> run_calls caps cs bc')"

text \<open>Every transaction the ledger holds, oldest first: those of the blocks, then
  the pool.\<close>

definition all_transactions :: "Blockchain \<Rightarrow> transaction list" where
  "all_transactions bc = concat (map transactions (chain bc)) @ unconfirmed_transactions bc"

text \<open>A sequence of \<^verbatim>\<open>create_block\<close> calls, each with its nonce, previous hash and
  clock reading.\<close>

fun create_blocks :: "Blockchain \<Rightarrow> (nat \<times> string \<times> real) list \<Rightarrow> Blockchain" where
  "create_blocks bc [] = bc"
| "create_blocks bc ((n, prev, t) # rest) = create_blocks (snd (create_block bc n prev t)) rest"

text \<open>No profile of the registry has a negative view count.\<close>

definition view_counts_nonneg :: "PetRegistry \<Rightarrow> bool" where
  "view_counts_nonneg reg = (\<forall>q p. pets reg q = Some p \<longrightarrow> 0 \<le> view_count p)"

text \<open>
  The view events of a pet in a list of transactions: the \<^verbatim>\<open>view_count\<close> values of
  the \<^verbatim>\<open>PROFILE_VIEW\<close> transactions with its id, in order.
\<close>

definition is_view_of :: "transaction \<Rightarrow> string \<Rightarrow> bool" where
  "is_view_of tx pid =
     (map_of tx ''type'' = Some (JStr ''PROFILE_VIEW'') \<and> map_of tx ''pet_id'' = Some (JStr pid))"

definition view_events :: "transaction list \<Rightarrow> string \<Rightarrow> json option list" where
  "view_events txs pid =
     map (\<lambda>tx. map_of tx ''view_count'') (filter (\<lambda>tx. is_view_of tx pid) txs)"

section \<open>A small instance for concrete evaluations\<close>

text \<open>
  Stand-ins for the library primitives, small enough to evaluate: a digest that prefixes
  its input (with \<open>00\<close> when the input ends in the digit 2), a serialiser that only
  tells a list by its length and a block by its number, the integer part of a clock
  reading, and a verifier that accepts the signature \<open>good\<close>, rejects \<open>bad\<close> and
  raises on anything else.
\<close>

definition demo_digest :: "string \<Rightarrow> string" where
  "demo_digest s =
     (case rev s of
        [] \<Rightarrow> ''7f''
      | c # _ \<Rightarrow> if c = CHR ''2'' then ''00'' @ s else ''7f'' @ s)"

definition demo_dumps :: "json \<Rightarrow> string" where
  "demo_dumps j =
     (case j of
        JList xs \<Rightarrow> ''l'' @ str_nat (length xs)
      | JDict kvs \<Rightarrow>
          (case map_of kvs ''block_number'' of
             Some (JInt i) \<Rightarrow> ''b'' @ str_nat (nat i)
           | _ \<Rightarrow> ''d'')
      | _ \<Rightarrow> ''v'')"

definition demo_str_float :: "real \<Rightarrow> string" where
  "demo_str_float r = str_nat (nat \<lfloor>r\<rfloor>)"

definition demo_verify :: "pyobj \<Rightarrow> pyobj \<Rightarrow> (pyobj \<times> pyobj \<times> real) \<Rightarrow> bool option" where
  "demo_verify sender sg tx_data =
     (if sg = Some ''good'' then Some True
      else if sg = Some ''bad'' then Some False
      else None)"

definition demo_caps :: capabilities where
  "demo_caps = \<lparr> sha256_hexdigest = demo_digest, json_dumps = demo_dumps,
                 str_float = demo_str_float, pkcs1_verify = demo_verify \<rparr>"

text \<open>A fresh service, and the same after one registration by the owner key \<open>K1\<close>.\<close>

definition demo_genesis :: Blockchain where
  "demo_genesis = new_blockchain ''node'' 0"

definition demo_pet_data :: "string \<rightharpoonup> pyobj" where
  "demo_pet_data = [''name'' \<mapsto> Some ''Rex'', ''microchip_id'' \<mapsto> Some ''C1'']"

definition demo_registered :: Blockchain where
  "demo_registered = snd (register_pet demo_caps demo_genesis demo_pet_data (Some ''K1'') 1 2 3)"

definition demo_pid :: string where
  "demo_pid = ''7fC1_K1_1''"

text \<open>The registered pet reported lost by its owner.\<close>

definition demo_lost :: Blockchain where
  "demo_lost =
     snd (report_pet_lost demo_caps demo_registered demo_pid (Some ''K1'')
            (Some ''Park'') (Some ''ran off'') 4 5)"

text \<open>The registered pet viewed once, with a text key and with the number 5 as the
  key.\<close>

definition demo_viewed :: Blockchain where
  "demo_viewed = snd (view_pet_profile demo_caps demo_registered demo_pid (PyStr ''V1'') 4)"

definition demo_view_raised :: Blockchain where
  "demo_view_raised = snd (view_pet_profile demo_caps demo_registered demo_pid (PyInt 5) 4)"

text \<open>The state after the registration has been mined: the search stops at nonce 2.\<close>

definition demo_mined :: Blockchain where
  "demo_mined =
     snd (create_block
            (demo_registered\<lparr>unconfirmed_transactions :=
               unconfirmed_transactions demo_registered @ [reward_tx demo_caps demo_registered 8]\<rparr>)
            2 (hash demo_caps (last (chain demo_registered))) 9)"

text \<open>
  A run under a clock that does not advance between the calls (every reading is 1): the
  pet is registered and reported lost, and the same registration is submitted again.
\<close>

definition demo_tick_registered :: Blockchain where
  "demo_tick_registered =
     snd (register_pet demo_caps demo_genesis demo_pet_data (Some ''K1'') 1 1 1)"

definition demo_tick_lost :: Blockchain where
  "demo_tick_lost =
     snd (report_pet_lost demo_caps demo_tick_registered demo_pid (Some ''K1'')
            (Some ''Park'') (Some ''ran off'') 1 1)"

definition demo_tick_lost_again :: Blockchain where
  "demo_tick_lost_again =
     snd (register_pet demo_caps demo_tick_lost demo_pet_data (Some ''K1'') 1 1 1)"

text \<open>Under the same clock: the pet is registered and viewed once, and the same
  registration is submitted again.\<close>

definition demo_tick_viewed :: Blockchain where
  "demo_tick_viewed =
     snd (view_pet_profile demo_caps demo_tick_registered demo_pid (PyStr ''V1'') 1)"

definition demo_tick_viewed_again :: Blockchain where
  "demo_tick_viewed_again =
     snd (register_pet demo_caps demo_tick_viewed demo_pet_data (Some ''K1'') 1 1 1)"

section \<open>Properties\<close>

subsection \<open>Block creation\<close>

lemma create_block_fields:
  "transactions (fst (create_block bc n prev t)) = unconfirmed_transactions bc"
  "block_number (fst (create_block bc n prev t)) = length (chain bc) + 1"
  "nonce (fst (create_block bc n prev t)) = n"
  "previous_hash (fst (create_block bc n prev t)) = prev"
  "timestamp (fst (create_block bc n prev t)) = t"
  by (simp_all add: create_block_def Let_def)

lemma create_block_state:
  "unconfirmed_transactions (snd (create_block bc n prev t)) = []"
  "chain (snd (create_block bc n prev t)) = chain bc @ [fst (create_block bc n prev t)]"
  "pet_registry (snd (create_block bc n prev t)) = pet_registry bc"
  "nodes (snd (create_block bc n prev t)) = nodes bc"
  "node_id (snd (create_block bc n prev t)) = node_id bc"
  by (simp_all add: create_block_def Let_def)

lemma create_block_all_transactions:
  "all_transactions (snd (create_block bc n prev t)) = all_transactions bc"
  by (simp add: all_transactions_def create_block_state create_block_fields)

lemma create_blocks_empty_pool:
  "unconfirmed_transactions bc = [] \<Longrightarrow>
   map transactions (chain (create_blocks bc calls)) =
     map transactions (chain bc) @ replicate (length calls) [] \<and>
   unconfirmed_transactions (create_blocks bc calls) = []"
proof (induction calls arbitrary: bc)
  case Nil
  then show ?case by simp
next
  case (Cons c calls)
  obtain n prev t where c: "c = (n, prev, t)" by (cases c)
  have "unconfirmed_transactions (snd (create_block bc n prev t)) = []"
    by (simp add: create_block_state)
  from Cons.IH[OF this] show ?case using Cons.prems
    by (simp add: c create_block_state create_block_fields replicate_append_same)
qed

text \<open>
  C2. \<^verbatim>\<open>create_block\<close> returns a block whose transactions are the pool at call time
  in insertion order and whose number is the prior chain length plus one; afterwards the
  pool is empty and the chain is the prior chain with that block appended. Over a
  sequence of \<^verbatim>\<open>create_block\<close> calls the pool's transactions sit in the first new
  block only (the later blocks are empty), so the list of all transactions of the ledger
  is unchanged: none is lost and none is in two blocks.
\<close>

theorem create_block_commit:
  "transactions (fst (create_block bc n prev t)) = unconfirmed_transactions bc \<and>
   block_number (fst (create_block bc n prev t)) = length (chain bc) + 1 \<and>
   unconfirmed_transactions (snd (create_block bc n prev t)) = [] \<and>
   chain (snd (create_block bc n prev t)) = chain bc @ [fst (create_block bc n prev t)] \<and>
   pet_registry (snd (create_block bc n prev t)) = pet_registry bc \<and>
   all_transactions (snd (create_block bc n prev t)) = all_transactions bc \<and>
   map transactions (chain (create_blocks bc (c # calls))) =
     map transactions (chain bc) @ unconfirmed_transactions bc # replicate (length calls) [] \<and>
   unconfirmed_transactions (create_blocks bc (c # calls)) = [] \<and>
   all_transactions (create_blocks bc (c # calls)) = all_transactions bc"
proof -
  obtain n' prev' t' where c: "c = (n', prev', t')" by (cases c)
  have e: "unconfirmed_transactions (snd (create_block bc n' prev' t')) = []"
    by (simp add: create_block_state)
  have m: "map transactions (chain (create_blocks bc (c # calls))) =
     map transactions (chain bc) @ unconfirmed_transactions bc # replicate (length calls) []"
    and p: "unconfirmed_transactions (create_blocks bc (c # calls)) = []"
    using create_blocks_empty_pool[OF e, of calls]
    by (simp_all add: c create_block_state create_block_fields)
  have "all_transactions (create_blocks bc (c # calls)) = all_transactions bc"
    unfolding all_transactions_def m p
    by (simp add: concat_map_singleton)
  with m p show ?thesis
    by (simp add: create_block_fields create_block_state create_block_all_transactions)
qed

subsection \<open>What each operation does to the state\<close>

lemma register_pet_eq:
  "register_pet caps bc pet_data k t1 t2 t3 =
     (let pid = generate_pet_id caps
                  (dict_get_default pet_data ''microchip_id'' (Some ''NO_CHIP'')) k t1
      in (pid,
          bc\<lparr>pet_registry := (pet_registry bc)\<lparr>pets := (pets (pet_registry bc))
                 (pid \<mapsto> new_profile caps pid (pet_data(''owner_public_key'' \<mapsto> k)) t2)\<rparr>,
             unconfirmed_transactions :=
               unconfirmed_transactions bc @ [registration_tx caps pid pet_data k t3]\<rparr>))"
  by (simp add: register_pet_def create_pet_profile_def Let_def)

lemma add_vet_record_to_pet_unknown:
  "pets (pet_registry bc) pid = None \<Longrightarrow>
   add_vet_record_to_pet caps bc pid rcd k t1 t2 t3 t4 = Inr (None, bc)"
  by (simp add: add_vet_record_to_pet_def get_pet_def)

lemma add_vet_record_to_pet_wrong_key:
  "pets (pet_registry bc) pid = Some pet \<Longrightarrow> owner_public_key pet \<noteq> k \<Longrightarrow>
   add_vet_record_to_pet caps bc pid rcd k t1 t2 t3 t4 = Inr (None, bc)"
  by (simp add: add_vet_record_to_pet_def get_pet_def)

lemma add_vet_record_to_pet_ok:
  "pets (pet_registry bc) pid = Some pet \<Longrightarrow> owner_public_key pet = k \<Longrightarrow>
   add_vet_record_to_pet caps bc pid rcd k t1 t2 t3 t4 =
     Inr (Some (record_id (new_vet_record caps pid rcd t1 t2 t3)),
          bc\<lparr>pet_registry := (pet_registry bc)\<lparr>pets := (pets (pet_registry bc))
                 (pid \<mapsto> pet\<lparr>vet_records :=
                                vet_records pet @ [new_vet_record caps pid rcd t1 t2 t3]\<rparr>)\<rparr>,
             unconfirmed_transactions :=
               unconfirmed_transactions bc @
                 [vet_record_tx caps pid (new_vet_record caps pid rcd t1 t2 t3) k t4]\<rparr>)"
  by (simp add: add_vet_record_to_pet_def get_pet_def add_vet_record_def Let_def)

lemma hashed_key_value_text:
  "hashed_key_value caps (text_value k) = Inr (hashed_key caps k)"
  by (cases k) (simp_all add: hashed_key_value_def text_value_def hashed_key_def)

lemma hashed_key_value_number:
  "i \<noteq> 0 \<Longrightarrow> hashed_key_value caps (PyInt i) = Inl AttributeError"
  by (simp add: hashed_key_value_def)

lemma view_pet_profile_unknown:
  "pets (pet_registry bc) pid = None \<Longrightarrow> view_pet_profile caps bc pid k t = (Inr False, bc)"
  by (simp add: view_pet_profile_def)

lemma view_pet_profile_ok:
  "pets (pet_registry bc) pid = Some pet \<Longrightarrow> hashed_key_value caps k = Inr h \<Longrightarrow>
   view_pet_profile caps bc pid k t =
     (Inr True,
      bc\<lparr>pet_registry := (pet_registry bc)\<lparr>pets := (pets (pet_registry bc))
             (pid \<mapsto> pet\<lparr>view_count := view_count pet + 1\<rparr>)\<rparr>,
         unconfirmed_transactions :=
           unconfirmed_transactions bc @ [profile_view_tx pid h (view_count pet + 1) t]\<rparr>)"
  by (simp add: view_pet_profile_def increment_view_count_def)

lemma view_pet_profile_raises:
  "pets (pet_registry bc) pid = Some pet \<Longrightarrow> hashed_key_value caps k = Inl e \<Longrightarrow>
   view_pet_profile caps bc pid k t =
     (Inl e,
      bc\<lparr>pet_registry := (pet_registry bc)\<lparr>pets := (pets (pet_registry bc))
             (pid \<mapsto> pet\<lparr>view_count := view_count pet + 1\<rparr>)\<rparr>\<rparr>)"
  by (simp add: view_pet_profile_def increment_view_count_def)

lemma report_pet_lost_unknown:
  "pets (pet_registry bc) pid = None \<Longrightarrow>
   report_pet_lost caps bc pid k loc descr t1 t2 = (False, bc)"
  by (simp add: report_pet_lost_def get_pet_def)

lemma report_pet_lost_wrong_key:
  "pets (pet_registry bc) pid = Some pet \<Longrightarrow> owner_public_key pet \<noteq> k \<Longrightarrow>
   report_pet_lost caps bc pid k loc descr t1 t2 = (False, bc)"
  by (simp add: report_pet_lost_def get_pet_def)

lemma report_pet_lost_ok:
  "pets (pet_registry bc) pid = Some pet \<Longrightarrow> owner_public_key pet = k \<Longrightarrow>
   report_pet_lost caps bc pid k loc descr t1 t2 =
     (True,
      bc\<lparr>pet_registry := (pet_registry bc)\<lparr>pets := (pets (pet_registry bc))
             (pid \<mapsto> pet\<lparr>status := Lost, lost_location := Some loc,
                           lost_description := Some descr, lost_since := Some t1\<rparr>)\<rparr>,
         unconfirmed_transactions :=
           unconfirmed_transactions bc @ [pet_lost_tx caps pid loc descr k t2]\<rparr>)"
  by (simp add: report_pet_lost_def get_pet_def mark_pet_lost_def)

lemma report_pet_found_unknown:
  "pets (pet_registry bc) pid = None \<Longrightarrow>
   report_pet_found caps bc pid k contact t1 t2 = (Inr False, bc)"
  by (simp add: report_pet_found_def get_pet_def)

lemma report_pet_found_not_lost:
  "pets (pet_registry bc) pid = Some pet \<Longrightarrow> status pet \<noteq> Lost \<Longrightarrow>
   report_pet_found caps bc pid k contact t1 t2 = (Inr False, bc)"
  by (simp add: report_pet_found_def get_pet_def)

lemma report_pet_found_ok:
  "pets (pet_registry bc) pid = Some pet \<Longrightarrow> status pet = Lost \<Longrightarrow>
   hashed_key_value caps k = Inr h \<Longrightarrow>
   report_pet_found caps bc pid k contact t1 t2 =
     (Inr True,
      bc\<lparr>pet_registry := (pet_registry bc)\<lparr>pets := (pets (pet_registry bc))
             (pid \<mapsto> pet\<lparr>status := Active, found_by := Some contact, found_at := Some t1\<rparr>)\<rparr>,
         unconfirmed_transactions :=
           unconfirmed_transactions bc @ [pet_found_tx pid h contact t2]\<rparr>)"
  by (simp add: report_pet_found_def get_pet_def mark_pet_found_def)

lemma report_pet_found_raises:
  "pets (pet_registry bc) pid = Some pet \<Longrightarrow> status pet = Lost \<Longrightarrow>
   hashed_key_value caps k = Inl e \<Longrightarrow>
   report_pet_found caps bc pid k contact t1 t2 =
     (Inl e,
      bc\<lparr>pet_registry := (pet_registry bc)\<lparr>pets := (pets (pet_registry bc))
             (pid \<mapsto> pet\<lparr>status := Active, found_by := Some contact,
                           found_at := Some t1\<rparr>)\<rparr>\<rparr>)"
  by (simp add: report_pet_found_def get_pet_def mark_pet_found_def)

lemma submit_transaction_reward:
  "submit_transaction caps bc (Some MINING_SENDER) recipient sg amount t =
     (Some (length (chain bc) + 1),
      bc\<lparr>unconfirmed_transactions :=
           unconfirmed_transactions bc @
             [transfer_tx caps (Some MINING_SENDER) recipient amount t]\<rparr>)"
  by (simp add: submit_transaction_def Let_def)

lemma submit_transaction_rejected:
  "sender \<noteq> Some MINING_SENDER \<Longrightarrow>
   pkcs1_verify caps sender sg (sender, recipient, amount) \<noteq> Some True \<Longrightarrow>
   submit_transaction caps bc sender recipient sg amount t = (None, bc)"
  by (auto simp add: submit_transaction_def Let_def verify_transaction_signature_def
      split: option.splits)

lemma submit_transaction_accepted:
  "sender \<noteq> Some MINING_SENDER \<Longrightarrow>
   pkcs1_verify caps sender sg (sender, recipient, amount) = Some True \<Longrightarrow>
   submit_transaction caps bc sender recipient sg amount t =
     (Some (length (chain bc) + 1),
      bc\<lparr>unconfirmed_transactions :=
           unconfirmed_transactions bc @ [transfer_tx caps sender recipient amount t]\<rparr>)"
  by (simp add: submit_transaction_def Let_def verify_transaction_signature_def)

text \<open>The outcomes of each operation, as one case distinction.\<close>

lemma add_vet_record_to_pet_cases:
  "add_vet_record_to_pet caps bc pid rcd k t1 t2 t3 t4 = Inr (None, bc) \<or>
   (\<exists>pet. pets (pet_registry bc) pid = Some pet \<and> owner_public_key pet = k \<and>
      add_vet_record_to_pet caps bc pid rcd k t1 t2 t3 t4 =
        Inr (Some (record_id (new_vet_record caps pid rcd t1 t2 t3)),
          bc\<lparr>pet_registry := (pet_registry bc)\<lparr>pets := (pets (pet_registry bc))
                 (pid \<mapsto> pet\<lparr>vet_records :=
                                vet_records pet @ [new_vet_record caps pid rcd t1 t2 t3]\<rparr>)\<rparr>,
             unconfirmed_transactions :=
               unconfirmed_transactions bc @
                 [vet_record_tx caps pid (new_vet_record caps pid rcd t1 t2 t3) k t4]\<rparr>))"
proof (cases "pets (pet_registry bc) pid")
  case None
  then show ?thesis by (simp add: add_vet_record_to_pet_unknown)
next
  case (Some pet)
  then show ?thesis
    by (cases "owner_public_key pet = k")
       (simp_all add: add_vet_record_to_pet_ok add_vet_record_to_pet_wrong_key)
qed

lemma view_pet_profile_cases:
  "view_pet_profile caps bc pid k t = (Inr False, bc) \<and> pets (pet_registry bc) pid = None \<or>
   (\<exists>pet e. pets (pet_registry bc) pid = Some pet \<and> hashed_key_value caps k = Inl e \<and>
      view_pet_profile caps bc pid k t =
        (Inl e,
         bc\<lparr>pet_registry := (pet_registry bc)\<lparr>pets := (pets (pet_registry bc))
                (pid \<mapsto> pet\<lparr>view_count := view_count pet + 1\<rparr>)\<rparr>\<rparr>)) \<or>
   (\<exists>pet h. pets (pet_registry bc) pid = Some pet \<and> hashed_key_value caps k = Inr h \<and>
      view_pet_profile caps bc pid k t =
        (Inr True,
         bc\<lparr>pet_registry := (pet_registry bc)\<lparr>pets := (pets (pet_registry bc))
                (pid \<mapsto> pet\<lparr>view_count := view_count pet + 1\<rparr>)\<rparr>,
            unconfirmed_transactions :=
              unconfirmed_transactions bc @
                [profile_view_tx pid h (view_count pet + 1) t]\<rparr>))"
proof (cases "pets (pet_registry bc) pid")
  case None
  then show ?thesis by (simp add: view_pet_profile_unknown)
next
  case (Some pet)
  then show ?thesis
    by (cases "hashed_key_value caps k")
       (simp_all add: view_pet_profile_ok view_pet_profile_raises)
qed

lemma report_pet_lost_cases:
  "report_pet_lost caps bc pid k loc descr t1 t2 = (False, bc) \<or>
   (\<exists>pet. pets (pet_registry bc) pid = Some pet \<and> owner_public_key pet = k \<and>
      report_pet_lost caps bc pid k loc descr t1 t2 =
        (True,
         bc\<lparr>pet_registry := (pet_registry bc)\<lparr>pets := (pets (pet_registry bc))
                (pid \<mapsto> pet\<lparr>status := Lost, lost_location := Some loc,
                              lost_description := Some descr, lost_since := Some t1\<rparr>)\<rparr>,
            unconfirmed_transactions :=
              unconfirmed_transactions bc @ [pet_lost_tx caps pid loc descr k t2]\<rparr>))"
proof (cases "pets (pet_registry bc) pid")
  case None
  then show ?thesis by (simp add: report_pet_lost_unknown)
next
  case (Some pet)
  then show ?thesis
    by (cases "owner_public_key pet = k")
       (simp_all add: report_pet_lost_ok report_pet_lost_wrong_key)
qed

lemma report_pet_found_cases:
  "report_pet_found caps bc pid k contact t1 t2 = (Inr False, bc) \<or>
   (\<exists>pet e. pets (pet_registry bc) pid = Some pet \<and> status pet = Lost \<and>
      hashed_key_value caps k = Inl e \<and>
      report_pet_found caps bc pid k contact t1 t2 =
        (Inl e,
         bc\<lparr>pet_registry := (pet_registry bc)\<lparr>pets := (pets (pet_registry bc))
                (pid \<mapsto> pet\<lparr>status := Active, found_by := Some contact,
                              found_at := Some t1\<rparr>)\<rparr>\<rparr>)) \<or>
   (\<exists>pet h. pets (pet_registry bc) pid = Some pet \<and> status pet = Lost \<and>
      hashed_key_value caps k = Inr h \<and>
      report_pet_found caps bc pid k contact t1 t2 =
        (Inr True,
         bc\<lparr>pet_registry := (pet_registry bc)\<lparr>pets := (pets (pet_registry bc))
                (pid \<mapsto> pet\<lparr>status := Active, found_by := Some contact,
                              found_at := Some t1\<rparr>)\<rparr>,
            unconfirmed_transactions :=
              unconfirmed_transactions bc @ [pet_found_tx pid h contact t2]\<rparr>))"
proof (cases "pets (pet_registry bc) pid")
  case None
  then show ?thesis by (simp add: report_pet_found_unknown)
next
  case (Some pet)
  show ?thesis
  proof (cases "status pet = Lost")
    case True
    with Some show ?thesis
      by (cases "hashed_key_value caps k")
         (simp_all add: report_pet_found_ok report_pet_found_raises)
  next
    case False
    with Some show ?thesis by (simp add: report_pet_found_not_lost)
  qed
qed

lemma submit_transaction_cases_state:
  "snd (submit_transaction caps bc sender recipient sg amount t) = bc \<or>
   snd (submit_transaction caps bc sender recipient sg amount t) =
     bc\<lparr>unconfirmed_transactions :=
          unconfirmed_transactions bc @ [transfer_tx caps sender recipient amount t]\<rparr>"
  by (simp add: submit_transaction_def Let_def)

subsection \<open>Evaluating the small instance\<close>

lemma demo_caps_simps:
  "sha256_hexdigest demo_caps = demo_digest"
  "json_dumps demo_caps = demo_dumps"
  "str_float demo_caps = demo_str_float"
  "pkcs1_verify demo_caps = demo_verify"
  by (simp_all add: demo_caps_def)

lemma str_nat_digit: "n < 10 \<Longrightarrow> str_nat n = [digit_char n]"
  by (simp add: str_nat_def)

lemma demo_generate: "generate_pet_id demo_caps (Some ''C1'') (Some ''K1'') 1 = demo_pid"
  by (simp add: generate_pet_id_def demo_caps_simps demo_str_float_def str_nat_digit
      digit_char_def py_str_def demo_digest_def demo_pid_def)

lemma demo_registered_eq:
  "demo_registered =
     demo_genesis\<lparr>pet_registry := (pet_registry demo_genesis)\<lparr>pets := (pets (pet_registry demo_genesis))
                 (demo_pid \<mapsto> new_profile demo_caps demo_pid
                     (demo_pet_data(''owner_public_key'' \<mapsto> Some ''K1'')) 2)\<rparr>,
             unconfirmed_transactions :=
               unconfirmed_transactions demo_genesis @
                 [registration_tx demo_caps demo_pid demo_pet_data (Some ''K1'') 3]\<rparr>"
proof -
  have "dict_get_default demo_pet_data ''microchip_id'' (Some ''NO_CHIP'') = Some ''C1''"
    by (simp add: dict_get_default_def demo_pet_data_def)
  then show ?thesis
    by (simp add: demo_registered_def register_pet_eq Let_def demo_generate)
qed

lemma demo_genesis_eq:
  "demo_genesis =
     \<lparr> unconfirmed_transactions = [],
       chain = [\<lparr> block_number = 1, timestamp = 0, transactions = [], nonce = 0,
                  previous_hash = ''00'' \<rparr>],
       nodes = {}, node_id = ''node'', pet_registry = \<lparr> pets = Map.empty \<rparr> \<rparr>"
  by (simp add: demo_genesis_def new_blockchain_def create_block_def Let_def)

lemma demo_registered_pet:
  "pets (pet_registry demo_registered) demo_pid =
     Some (new_profile demo_caps demo_pid (demo_pet_data(''owner_public_key'' \<mapsto> Some ''K1'')) 2)"
  by (simp add: demo_registered_eq)

lemma demo_profile_fields:
  "owner_public_key (new_profile demo_caps demo_pid (demo_pet_data(''owner_public_key'' \<mapsto> Some ''K1'')) 2) = Some ''K1''"
  "status (new_profile caps pid pd t) = Active"
  "view_count (new_profile caps pid pd t) = 0"
  "vet_records (new_profile caps pid pd t) = []"
  "found_by (new_profile caps pid pd t) = None"
  by (simp_all add: new_profile_def dict_get_def Let_def)

subsection \<open>Vet records are owner-gated\<close>

text \<open>
  C5. \<^verbatim>\<open>add_vet_record_to_pet\<close> returns \<^verbatim>\<open>False\<close> and leaves the whole state as it
  was (so no transaction is appended and no vet record is added) when the pet is unknown
  or the stored owner key differs from the key given. When the pet is known and the keys
  are equal it returns the id of the new record, appends exactly that record to the pet's
  \<^verbatim>\<open>vet_records\<close>, appends exactly one transaction of type \<^verbatim>\<open>VET_RECORD\<close> to
  the pool, and changes no other pet and no block. It never raises.
\<close>

theorem add_vet_record_to_pet_fails_closed:
  "((pets (pet_registry bc) pid = None \<or>
     (\<exists>pet. pets (pet_registry bc) pid = Some pet \<and> owner_public_key pet \<noteq> k)) \<longrightarrow>
    add_vet_record_to_pet caps bc pid rcd k t1 t2 t3 t4 = Inr (None, bc)) \<and>
   (\<forall>pet. pets (pet_registry bc) pid = Some pet \<and> owner_public_key pet = k \<longrightarrow>
     (\<exists>rc bc'. add_vet_record_to_pet caps bc pid rcd k t1 t2 t3 t4 =
                  Inr (Some (record_id rc), bc') \<and>
        rc = new_vet_record caps pid rcd t1 t2 t3 \<and>
        pets (pet_registry bc') pid = Some (pet\<lparr>vet_records := vet_records pet @ [rc]\<rparr>) \<and>
        unconfirmed_transactions bc' =
          unconfirmed_transactions bc @ [vet_record_tx caps pid rc k t4] \<and>
        map_of (vet_record_tx caps pid rc k t4) ''type'' = Some (JStr ''VET_RECORD'') \<and>
        chain bc' = chain bc \<and>
        (\<forall>q. q \<noteq> pid \<longrightarrow> pets (pet_registry bc') q = pets (pet_registry bc) q)))"
proof (intro conjI impI allI)
  assume "pets (pet_registry bc) pid = None \<or>
     (\<exists>pet. pets (pet_registry bc) pid = Some pet \<and> owner_public_key pet \<noteq> k)"
  then show "add_vet_record_to_pet caps bc pid rcd k t1 t2 t3 t4 = Inr (None, bc)"
    using add_vet_record_to_pet_unknown add_vet_record_to_pet_wrong_key by blast
next
  fix pet
  assume a: "pets (pet_registry bc) pid = Some pet \<and> owner_public_key pet = k"
  then have r: "add_vet_record_to_pet caps bc pid rcd k t1 t2 t3 t4 =
     Inr (Some (record_id (new_vet_record caps pid rcd t1 t2 t3)),
          bc\<lparr>pet_registry := (pet_registry bc)\<lparr>pets := (pets (pet_registry bc))
                 (pid \<mapsto> pet\<lparr>vet_records :=
                                vet_records pet @ [new_vet_record caps pid rcd t1 t2 t3]\<rparr>)\<rparr>,
             unconfirmed_transactions :=
               unconfirmed_transactions bc @
                 [vet_record_tx caps pid (new_vet_record caps pid rcd t1 t2 t3) k t4]\<rparr>)"
    by (simp add: add_vet_record_to_pet_ok)
  show "\<exists>rc bc'. add_vet_record_to_pet caps bc pid rcd k t1 t2 t3 t4 =
                  Inr (Some (record_id rc), bc') \<and>
        rc = new_vet_record caps pid rcd t1 t2 t3 \<and>
        pets (pet_registry bc') pid = Some (pet\<lparr>vet_records := vet_records pet @ [rc]\<rparr>) \<and>
        unconfirmed_transactions bc' =
          unconfirmed_transactions bc @ [vet_record_tx caps pid rc k t4] \<and>
        map_of (vet_record_tx caps pid rc k t4) ''type'' = Some (JStr ''VET_RECORD'') \<and>
        chain bc' = chain bc \<and>
        (\<forall>q. q \<noteq> pid \<longrightarrow> pets (pet_registry bc') q = pets (pet_registry bc) q)"
    by (rule exI[of _ "new_vet_record caps pid rcd t1 t2 t3"], rule exI, rule conjI, rule r)
       (simp add: vet_record_tx_def)
qed

text \<open>The theorem at the registered pet of the small instance: an unknown id, the wrong
  key \<open>K2\<close>, and the owner key \<open>K1\<close>.\<close>

lemma demo_unknown_pet: "pets (pet_registry demo_registered) ''nope'' = None"
  by (simp add: demo_registered_eq demo_genesis_eq demo_pid_def)

theorem add_vet_record_to_pet_fails_closed_witness:
  "add_vet_record_to_pet demo_caps demo_registered ''nope'' Map.empty (Some ''K1'') 4 5 6 7 =
     Inr (None, demo_registered) \<and>
   add_vet_record_to_pet demo_caps demo_registered demo_pid Map.empty (Some ''K2'') 4 5 6 7 =
     Inr (None, demo_registered) \<and>
   (\<exists>rc bc'. add_vet_record_to_pet demo_caps demo_registered demo_pid Map.empty
                (Some ''K1'') 4 5 6 7 = Inr (Some ''7f7fC1_K1_1_'', bc') \<and>
      map_option vet_records (pets (pet_registry bc') demo_pid) = Some [rc] \<and>
      unconfirmed_transactions bc' =
        unconfirmed_transactions demo_registered @
          [vet_record_tx demo_caps demo_pid rc (Some ''K1'') 7])"
proof -
  let ?pet = "new_profile demo_caps demo_pid (demo_pet_data(''owner_public_key'' \<mapsto> Some ''K1'')) 2"
  have rid: "record_id (new_vet_record demo_caps demo_pid Map.empty 4 5 6) = ''7f7fC1_K1_1_''"
    by (simp add: new_vet_record_def demo_caps_simps demo_str_float_def str_nat_digit
        digit_char_def demo_digest_def demo_pid_def)
  have 1: "add_vet_record_to_pet demo_caps demo_registered ''nope'' Map.empty (Some ''K1'') 4 5 6 7 =
     Inr (None, demo_registered)"
    using add_vet_record_to_pet_fails_closed[where bc = demo_registered and pid = "''nope''"
        and k = "Some ''K1''" and caps = demo_caps and rcd = Map.empty
        and ?t1.0 = 4 and ?t2.0 = 5 and ?t3.0 = 6 and ?t4.0 = 7]
    by (simp add: demo_unknown_pet)
  have 2: "add_vet_record_to_pet demo_caps demo_registered demo_pid Map.empty (Some ''K2'') 4 5 6 7 =
     Inr (None, demo_registered)"
    using add_vet_record_to_pet_fails_closed[where bc = demo_registered and pid = demo_pid
        and k = "Some ''K2''" and caps = demo_caps and rcd = Map.empty
        and ?t1.0 = 4 and ?t2.0 = 5 and ?t3.0 = 6 and ?t4.0 = 7]
    by (simp add: demo_registered_pet demo_profile_fields)
  have 3: "\<exists>rc bc'. add_vet_record_to_pet demo_caps demo_registered demo_pid Map.empty
                (Some ''K1'') 4 5 6 7 = Inr (Some ''7f7fC1_K1_1_'', bc') \<and>
      map_option vet_records (pets (pet_registry bc') demo_pid) = Some [rc] \<and>
      unconfirmed_transactions bc' =
        unconfirmed_transactions demo_registered @
          [vet_record_tx demo_caps demo_pid rc (Some ''K1'') 7]"
    using add_vet_record_to_pet_fails_closed[where bc = demo_registered and pid = demo_pid
        and k = "Some ''K1''" and caps = demo_caps and rcd = Map.empty
        and ?t1.0 = 4 and ?t2.0 = 5 and ?t3.0 = 6 and ?t4.0 = 7]
    by (fastforce simp add: demo_registered_pet demo_profile_fields rid)
  from 1 2 3 show ?thesis by blast
qed

subsection \<open>Submitting a transfer\<close>

lemma hashed_key_verify_update:
  "hashed_key (caps\<lparr>pkcs1_verify := v\<rparr>) k = hashed_key caps k"
  by (simp add: hashed_key_def split: option.splits)

text \<open>
  C7. When the sender is the mining-reward identity, \<^verbatim>\<open>submit_transaction\<close> appends
  the transfer and returns the chain length plus one, whatever the verifier would say (the
  result is the same under any verifier). Otherwise, when the verifier returns
  \<^verbatim>\<open>False\<close> or raises, it returns \<^verbatim>\<open>False\<close> and the state is unchanged; when
  the verifier accepts, it appends the transfer and returns the chain length plus one.
  No case raises.
\<close>

theorem submit_transaction_cases:
  "(sender = Some MINING_SENDER \<longrightarrow>
      submit_transaction caps bc sender recipient sg amount t =
        (Some (length (chain bc) + 1),
         bc\<lparr>unconfirmed_transactions :=
              unconfirmed_transactions bc @ [transfer_tx caps sender recipient amount t]\<rparr>) \<and>
      submit_transaction (caps\<lparr>pkcs1_verify := v\<rparr>) bc sender recipient sg amount t =
        submit_transaction caps bc sender recipient sg amount t) \<and>
   (sender \<noteq> Some MINING_SENDER \<and>
    (pkcs1_verify caps sender sg (sender, recipient, amount) = None \<or>
     pkcs1_verify caps sender sg (sender, recipient, amount) = Some False) \<longrightarrow>
      submit_transaction caps bc sender recipient sg amount t = (None, bc)) \<and>
   (sender \<noteq> Some MINING_SENDER \<and>
    pkcs1_verify caps sender sg (sender, recipient, amount) = Some True \<longrightarrow>
      submit_transaction caps bc sender recipient sg amount t =
        (Some (length (chain bc) + 1),
         bc\<lparr>unconfirmed_transactions :=
              unconfirmed_transactions bc @ [transfer_tx caps sender recipient amount t]\<rparr>))"
proof (intro conjI impI)
  assume s: "sender = Some MINING_SENDER"
  show "submit_transaction caps bc sender recipient sg amount t =
        (Some (length (chain bc) + 1),
         bc\<lparr>unconfirmed_transactions :=
              unconfirmed_transactions bc @ [transfer_tx caps sender recipient amount t]\<rparr>)"
    by (simp add: s submit_transaction_reward)
  show "submit_transaction (caps\<lparr>pkcs1_verify := v\<rparr>) bc sender recipient sg amount t =
        submit_transaction caps bc sender recipient sg amount t"
    by (simp add: s submit_transaction_reward transfer_tx_def hashed_key_verify_update)
next
  assume "sender \<noteq> Some MINING_SENDER \<and>
    (pkcs1_verify caps sender sg (sender, recipient, amount) = None \<or>
     pkcs1_verify caps sender sg (sender, recipient, amount) = Some False)"
  then show "submit_transaction caps bc sender recipient sg amount t = (None, bc)"
    by (auto intro: submit_transaction_rejected)
next
  assume "sender \<noteq> Some MINING_SENDER \<and>
    pkcs1_verify caps sender sg (sender, recipient, amount) = Some True"
  then show "submit_transaction caps bc sender recipient sg amount t =
        (Some (length (chain bc) + 1),
         bc\<lparr>unconfirmed_transactions :=
              unconfirmed_transactions bc @ [transfer_tx caps sender recipient amount t]\<rparr>)"
    by (simp add: submit_transaction_accepted)
qed

lemma demo_genesis_length: "length (chain demo_genesis) = 1"
  by (simp add: demo_genesis_eq)

theorem submit_transaction_cases_witness:
  "submit_transaction demo_caps demo_genesis (Some ''BLOCKCHAIN_REWARD'') (Some ''node'')
      (Some []) 1 5 =
     (Some 2, demo_genesis\<lparr>unconfirmed_transactions :=
        [transfer_tx demo_caps (Some ''BLOCKCHAIN_REWARD'') (Some ''node'') 1 5]\<rparr>) \<and>
   submit_transaction demo_caps demo_genesis (Some ''alice'') (Some ''bob'') (Some ''bad'') 3 5 =
     (None, demo_genesis) \<and>
   submit_transaction demo_caps demo_genesis (Some ''alice'') (Some ''bob'') (Some ''junk'') 3 5 =
     (None, demo_genesis) \<and>
   submit_transaction demo_caps demo_genesis (Some ''alice'') (Some ''bob'') (Some ''good'') 3 5 =
     (Some 2, demo_genesis\<lparr>unconfirmed_transactions :=
        [transfer_tx demo_caps (Some ''alice'') (Some ''bob'') 3 5]\<rparr>)"
proof -
  have p: "unconfirmed_transactions demo_genesis = []"
    by (simp add: demo_genesis_eq)
  have 1: "submit_transaction demo_caps demo_genesis (Some ''BLOCKCHAIN_REWARD'') (Some ''node'')
      (Some []) 1 5 =
     (Some 2, demo_genesis\<lparr>unconfirmed_transactions :=
        [transfer_tx demo_caps (Some ''BLOCKCHAIN_REWARD'') (Some ''node'') 1 5]\<rparr>)"
    using submit_transaction_cases[where sender = "Some ''BLOCKCHAIN_REWARD''"
        and caps = demo_caps and bc = demo_genesis and recipient = "Some ''node''"
        and sg = "Some []" and amount = 1 and t = 5]
    by (simp add: MINING_SENDER_def demo_genesis_length p)
  have 2: "submit_transaction demo_caps demo_genesis (Some ''alice'') (Some ''bob'') (Some ''bad'') 3 5 =
     (None, demo_genesis)"
    using submit_transaction_cases[where sender = "Some ''alice''"
        and caps = demo_caps and bc = demo_genesis and recipient = "Some ''bob''"
        and sg = "Some ''bad''" and amount = 3 and t = 5]
    by (simp add: MINING_SENDER_def demo_caps_simps demo_verify_def)
  have 3: "submit_transaction demo_caps demo_genesis (Some ''alice'') (Some ''bob'') (Some ''junk'') 3 5 =
     (None, demo_genesis)"
    using submit_transaction_cases[where sender = "Some ''alice''"
        and caps = demo_caps and bc = demo_genesis and recipient = "Some ''bob''"
        and sg = "Some ''junk''" and amount = 3 and t = 5]
    by (simp add: MINING_SENDER_def demo_caps_simps demo_verify_def)
  have 4: "submit_transaction demo_caps demo_genesis (Some ''alice'') (Some ''bob'') (Some ''good'') 3 5 =
     (Some 2, demo_genesis\<lparr>unconfirmed_transactions :=
        [transfer_tx demo_caps (Some ''alice'') (Some ''bob'') 3 5]\<rparr>)"
    using submit_transaction_cases[where sender = "Some ''alice''"
        and caps = demo_caps and bc = demo_genesis and recipient = "Some ''bob''"
        and sg = "Some ''good''" and amount = 3 and t = 5]
    by (simp add: MINING_SENDER_def demo_caps_simps demo_verify_def demo_genesis_length p)
  from 1 2 3 4 show ?thesis by simp
qed

subsection \<open>What a found report stores\<close>

text \<open>
  C10. When \<^verbatim>\<open>report_pet_found\<close> succeeds the pet was lost, and its profile becomes
  the old one with \<^verbatim>\<open>status\<close> active, \<^verbatim>\<open>found_by\<close> the contact argument and
  \<^verbatim>\<open>found_at\<close> the clock reading. The finder's key appears only in the appended
  \<^verbatim>\<open>PET_FOUND\<close> transaction, as its hash cut to 24 characters. The registry after
  the call is the same for any finder key, and so is the outcome for any two keys that
  are text or \<^verbatim>\<open>None\<close>; a key that cannot be hashed makes the call raise after the
  same change of the profile, with no transaction appended.
\<close>

theorem report_pet_found_sets_contact:
  "(fst (report_pet_found caps bc pid finder_key contact t1 t2) = Inr True \<longrightarrow>
      (\<exists>pet h. pets (pet_registry bc) pid = Some pet \<and> status pet = Lost \<and>
         hashed_key_value caps finder_key = Inr h \<and>
         pets (pet_registry (snd (report_pet_found caps bc pid finder_key contact t1 t2))) pid =
           Some (pet\<lparr>status := Active, found_by := Some contact, found_at := Some t1\<rparr>) \<and>
         unconfirmed_transactions (snd (report_pet_found caps bc pid finder_key contact t1 t2)) =
           unconfirmed_transactions bc @ [pet_found_tx pid h contact t2])) \<and>
   (fst (report_pet_found caps bc pid other_key contact t1 t2) = Inl e \<longrightarrow>
      (\<exists>pet. pets (pet_registry bc) pid = Some pet \<and> status pet = Lost \<and>
         hashed_key_value caps other_key = Inl e \<and>
         pets (pet_registry (snd (report_pet_found caps bc pid other_key contact t1 t2))) pid =
           Some (pet\<lparr>status := Active, found_by := Some contact, found_at := Some t1\<rparr>) \<and>
         unconfirmed_transactions (snd (report_pet_found caps bc pid other_key contact t1 t2)) =
           unconfirmed_transactions bc)) \<and>
   map_of (pet_found_tx pid h contact t2) ''finder_public_key_hash'' = Some (JStr h) \<and>
   map_of (pet_found_tx pid h contact t2) ''finder_contact'' = Some (js contact) \<and>
   hashed_key_value caps (PyStr (c # cs)) = Inr (take 24 (sha256_hexdigest caps (c # cs))) \<and>
   hashed_key_value caps (text_value k) = Inr (hashed_key caps k) \<and>
   pet_registry (snd (report_pet_found caps bc pid finder_key contact t1 t2)) =
     pet_registry (snd (report_pet_found caps bc pid other_key contact t1 t2)) \<and>
   fst (report_pet_found caps bc pid (text_value k) contact t1 t2) =
     fst (report_pet_found caps bc pid (text_value k') contact t1 t2) \<and>
   (fst (report_pet_found caps bc pid finder_key contact t1 t2) = Inr False) =
     (fst (report_pet_found caps bc pid other_key contact t1 t2) = Inr False)"
proof -
  have a: "fst (report_pet_found caps bc pid finder_key contact t1 t2) = Inr True \<longrightarrow>
      (\<exists>pet h. pets (pet_registry bc) pid = Some pet \<and> status pet = Lost \<and>
         hashed_key_value caps finder_key = Inr h \<and>
         pets (pet_registry (snd (report_pet_found caps bc pid finder_key contact t1 t2))) pid =
           Some (pet\<lparr>status := Active, found_by := Some contact, found_at := Some t1\<rparr>) \<and>
         unconfirmed_transactions (snd (report_pet_found caps bc pid finder_key contact t1 t2)) =
           unconfirmed_transactions bc @ [pet_found_tx pid h contact t2])"
    using report_pet_found_cases[of caps bc pid finder_key contact t1 t2] by auto
  have a': "fst (report_pet_found caps bc pid other_key contact t1 t2) = Inl e \<longrightarrow>
      (\<exists>pet. pets (pet_registry bc) pid = Some pet \<and> status pet = Lost \<and>
         hashed_key_value caps other_key = Inl e \<and>
         pets (pet_registry (snd (report_pet_found caps bc pid other_key contact t1 t2))) pid =
           Some (pet\<lparr>status := Active, found_by := Some contact, found_at := Some t1\<rparr>) \<and>
         unconfirmed_transactions (snd (report_pet_found caps bc pid other_key contact t1 t2)) =
           unconfirmed_transactions bc)"
    using report_pet_found_cases[of caps bc pid other_key contact t1 t2] by auto
  have b: "pet_registry (snd (report_pet_found caps bc pid key contact t1 t2)) =
      (case pets (pet_registry bc) pid of
         None \<Rightarrow> pet_registry bc
       | Some pet \<Rightarrow>
           if status pet = Lost
           then (pet_registry bc)\<lparr>pets := (pets (pet_registry bc))
                  (pid \<mapsto> pet\<lparr>status := Active, found_by := Some contact, found_at := Some t1\<rparr>)\<rparr>
           else pet_registry bc)" for key
  proof (cases "pets (pet_registry bc) pid")
    case None
    then show ?thesis by (simp add: report_pet_found_unknown)
  next
    case (Some pet)
    show ?thesis
    proof (cases "status pet = Lost")
      case True
      with Some show ?thesis
        by (cases "hashed_key_value caps key")
           (simp_all add: report_pet_found_ok report_pet_found_raises)
    next
      case False
      with Some show ?thesis by (simp add: report_pet_found_not_lost)
    qed
  qed
  have c: "fst (report_pet_found caps bc pid (text_value key) contact t1 t2) =
      (case pets (pet_registry bc) pid of
         None \<Rightarrow> Inr False
       | Some pet \<Rightarrow> Inr (status pet = Lost))" for key
  proof (cases "pets (pet_registry bc) pid")
    case None
    then show ?thesis by (simp add: report_pet_found_unknown)
  next
    case (Some pet)
    then show ?thesis
      by (cases "status pet = Lost")
         (simp_all add: report_pet_found_ok[OF _ _ hashed_key_value_text]
            report_pet_found_not_lost)
  qed
  have d: "(fst (report_pet_found caps bc pid key contact t1 t2) = Inr False) =
      (case pets (pet_registry bc) pid of None \<Rightarrow> True | Some pet \<Rightarrow> status pet \<noteq> Lost)"
    for key
  proof (cases "pets (pet_registry bc) pid")
    case None
    then show ?thesis by (simp add: report_pet_found_unknown)
  next
    case (Some pet)
    show ?thesis
    proof (cases "status pet = Lost")
      case True
      with Some show ?thesis
        by (cases "hashed_key_value caps key")
           (simp_all add: report_pet_found_ok report_pet_found_raises)
    next
      case False
      with Some show ?thesis by (simp add: report_pet_found_not_lost)
    qed
  qed
  have f: "hashed_key_value caps (PyStr (c # cs)) =
      Inr (take 24 (sha256_hexdigest caps (c # cs)))"
    by (simp add: hashed_key_value_def)
  show ?thesis
    by (intro conjI)
       (rule a, rule a', simp add: pet_found_tx_def, simp add: pet_found_tx_def,
        rule f, rule hashed_key_value_text, simp only: b, simp only: c, simp only: d)
qed

lemma demo_lost_eq:
  "demo_lost =
     demo_registered\<lparr>pet_registry := (pet_registry demo_registered)\<lparr>pets :=
         (pets (pet_registry demo_registered))
           (demo_pid \<mapsto>
              (new_profile demo_caps demo_pid
                 (demo_pet_data(''owner_public_key'' \<mapsto> Some ''K1'')) 2)
              \<lparr>status := Lost, lost_location := Some (Some ''Park''),
               lost_description := Some (Some ''ran off''), lost_since := Some 4\<rparr>)\<rparr>,
       unconfirmed_transactions :=
         unconfirmed_transactions demo_registered @
           [pet_lost_tx demo_caps demo_pid (Some ''Park'') (Some ''ran off'') (Some ''K1'') 5]\<rparr>"
  unfolding demo_lost_def
  by (simp add: report_pet_lost_ok[OF demo_registered_pet] demo_profile_fields)

lemma demo_lost_pet:
  "pets (pet_registry demo_lost) demo_pid =
     Some ((new_profile demo_caps demo_pid
              (demo_pet_data(''owner_public_key'' \<mapsto> Some ''K1'')) 2)
           \<lparr>status := Lost, lost_location := Some (Some ''Park''),
            lost_description := Some (Some ''ran off''), lost_since := Some 4\<rparr>)"
  by (simp add: demo_lost_eq)

lemma demo_lost_status:
  "status ((new_profile demo_caps demo_pid
              (demo_pet_data(''owner_public_key'' \<mapsto> Some ''K1'')) 2)
           \<lparr>status := Lost, lost_location := Some (Some ''Park''),
            lost_description := Some (Some ''ran off''), lost_since := Some 4\<rparr>) = Lost"
  by simp

lemma demo_found_key:
  "hashed_key_value demo_caps (PyStr ''F1'') = Inr (take 24 (demo_digest ''F1''))"
  by (simp add: hashed_key_value_def demo_caps_simps)

theorem report_pet_found_sets_contact_witness:
  "fst (report_pet_found demo_caps demo_lost demo_pid (PyStr ''F1'') (Some ''555-FIND'') 6 7) =
     Inr True \<and>
   map_option found_by
     (pets (pet_registry
        (snd (report_pet_found demo_caps demo_lost demo_pid (PyStr ''F1'') (Some ''555-FIND'') 6 7)))
        demo_pid) = Some (Some (Some ''555-FIND'')) \<and>
   map_option status
     (pets (pet_registry
        (snd (report_pet_found demo_caps demo_lost demo_pid (PyStr ''F1'') (Some ''555-FIND'') 6 7)))
        demo_pid) = Some Active \<and>
   fst (report_pet_found demo_caps demo_lost demo_pid (PyInt 5) (Some ''555-FIND'') 6 7) =
     Inl AttributeError \<and>
   map_option found_by
     (pets (pet_registry
        (snd (report_pet_found demo_caps demo_lost demo_pid (PyInt 5) (Some ''555-FIND'') 6 7)))
        demo_pid) = Some (Some (Some ''555-FIND'')) \<and>
   unconfirmed_transactions
     (snd (report_pet_found demo_caps demo_lost demo_pid (PyInt 5) (Some ''555-FIND'') 6 7)) =
     unconfirmed_transactions demo_lost"
proof -
  have ok: "fst (report_pet_found demo_caps demo_lost demo_pid (PyStr ''F1'')
                   (Some ''555-FIND'') 6 7) = Inr True"
    by (simp add: report_pet_found_ok[OF demo_lost_pet demo_lost_status demo_found_key])
  have raised: "fst (report_pet_found demo_caps demo_lost demo_pid (PyInt 5)
                   (Some ''555-FIND'') 6 7) = Inl AttributeError"
    by (simp add: report_pet_found_raises[OF demo_lost_pet demo_lost_status
          hashed_key_value_number])
  from report_pet_found_sets_contact[where caps = demo_caps and bc = demo_lost
      and pid = demo_pid and finder_key = "PyStr ''F1''" and other_key = "PyInt 5"
      and e = AttributeError and contact = "Some ''555-FIND''"
      and ?t1.0 = 6 and ?t2.0 = 7] ok raised
  show ?thesis by (auto simp add: demo_lost_pet)
qed

subsection \<open>Mining\<close>

lemma proof_of_work_nonempty:
  "chain bc \<noteq> [] \<Longrightarrow>
   proof_of_work caps bc =
     map_option Inr
       (pow_loop caps (unconfirmed_transactions bc) (hash caps (last (chain bc))) 0)"
  by (cases "chain bc") (simp_all add: proof_of_work_def)

lemma proof_of_work_empty: "chain bc = [] \<Longrightarrow> proof_of_work caps bc = Some (Inl IndexError)"
  by (simp add: proof_of_work_def)

lemma mine_block_eq:
  assumes "chain bc \<noteq> []"
  shows "mine_block caps bc t1 t2 =
     (case pow_loop caps (unconfirmed_transactions bc) (hash caps (last (chain bc))) 0 of
        None \<Rightarrow> None
      | Some n \<Rightarrow>
          Some (Inr (create_block
                       (bc\<lparr>unconfirmed_transactions :=
                             unconfirmed_transactions bc @ [reward_tx caps bc t1]\<rparr>)
                       n (hash caps (last (chain bc))) t2)))"
proof -
  from assms obtain b bs where c: "chain bc = b # bs" by (cases "chain bc") auto
  show ?thesis
    unfolding mine_block_def proof_of_work_nonempty[OF assms]
    by (cases "pow_loop caps (unconfirmed_transactions bc) (hash caps (last (chain bc))) 0")
       (simp_all add: submit_transaction_reward reward_tx_def c)
qed

lemma mine_block_empty: "chain bc = [] \<Longrightarrow> mine_block caps bc t1 t2 = Some (Inl IndexError)"
  by (simp add: mine_block_def proof_of_work_empty)

lemma run_call_Mine:
  "run_call caps (Mine t1 t2) bc = Some bc' \<Longrightarrow>
   bc' = bc \<and> chain bc = [] \<or>
   chain bc \<noteq> [] \<and>
   (\<exists>n. pow_loop caps (unconfirmed_transactions bc) (hash caps (last (chain bc))) 0 = Some n \<and>
        bc' = snd (create_block
                     (bc\<lparr>unconfirmed_transactions :=
                           unconfirmed_transactions bc @ [reward_tx caps bc t1]\<rparr>)
                     n (hash caps (last (chain bc))) t2))"
proof (cases "chain bc = []")
  case True
  assume "run_call caps (Mine t1 t2) bc = Some bc'"
  with True show ?thesis by (simp add: mine_block_empty)
next
  case False
  assume r: "run_call caps (Mine t1 t2) bc = Some bc'"
  show ?thesis
  proof (cases "pow_loop caps (unconfirmed_transactions bc) (hash caps (last (chain bc))) 0")
    case None
    with r False show ?thesis by (simp add: mine_block_eq)
  next
    case (Some n)
    with r False show ?thesis
      by (simp add: mine_block_eq split: prod.splits)
  qed
qed

subsection \<open>The chain along a run\<close>

text \<open>Every call but mining leaves the chain as it is; mining appends one block whose
  \<^verbatim>\<open>previous_hash\<close> is the hash of the block that was last.\<close>

lemma run_call_chain:
  assumes "run_call caps c bc = Some bc'"
  shows "chain bc' = chain bc \<or>
     chain bc \<noteq> [] \<and>
     (\<exists>blk. chain bc' = chain bc @ [blk] \<and> previous_hash blk = hash caps (last (chain bc)))"
proof (cases c)
  case (RegisterPet pd k t1 t2 t3)
  with assms show ?thesis by (auto simp add: register_pet_eq Let_def)
next
  case (AddVetRecord pid rcd k t1 t2 t3 t4)
  with assms add_vet_record_to_pet_cases[of caps bc pid rcd k t1 t2 t3 t4]
  show ?thesis by auto
next
  case (ViewProfile pid k t)
  with assms view_pet_profile_cases[of caps bc pid k t] show ?thesis by auto
next
  case (ReportLost pid k loc descr t1 t2)
  with assms report_pet_lost_cases[of caps bc pid k loc descr t1 t2] show ?thesis by auto
next
  case (ReportFound pid k contact t1 t2)
  with assms report_pet_found_cases[of caps bc pid k contact t1 t2] show ?thesis by auto
next
  case (SubmitTransaction sender recipient sg amount t)
  with assms submit_transaction_cases_state[of caps bc sender recipient sg amount t]
  show ?thesis by auto
next
  case (Mine t1 t2)
  with assms run_call_Mine[of caps t1 t2 bc bc'] show ?thesis
    by (auto simp add: create_block_state create_block_fields)
qed

lemma chain_linked_append:
  assumes "chain_linked caps ch" "ch \<noteq> []" "previous_hash blk = hash caps (last ch)"
  shows "chain_linked caps (ch @ [blk])"
  unfolding chain_linked_def
proof (intro allI impI)
  fix i assume i: "0 < i \<and> i < length (ch @ [blk])"
  show "previous_hash ((ch @ [blk]) ! i) = hash caps ((ch @ [blk]) ! (i - 1))"
  proof (cases "i < length ch")
    case True
    then have "i - 1 < length ch" by arith
    with True i assms(1) show ?thesis by (simp add: chain_linked_def nth_append)
  next
    case False
    with i have e: "i = length ch" by simp
    with assms(2) have "(ch @ [blk]) ! (i - 1) = last ch"
      by (simp add: nth_append last_conv_nth)
    with e assms(3) show ?thesis by simp
  qed
qed

lemma run_call_linked:
  assumes "run_call caps c bc = Some bc'" "chain bc \<noteq> []" "chain_linked caps (chain bc)"
  shows "chain bc' \<noteq> [] \<and> chain_linked caps (chain bc')"
  using run_call_chain[OF assms(1)] assms(2,3)
  by (auto simp add: chain_linked_append)

lemma run_calls_linked:
  "run_calls caps cs bc = Some bc' \<Longrightarrow> chain bc \<noteq> [] \<Longrightarrow> chain_linked caps (chain bc) \<Longrightarrow>
   chain bc' \<noteq> [] \<and> chain_linked caps (chain bc')"
proof (induction cs arbitrary: bc)
  case Nil
  then show ?case by simp
next
  case (Cons c cs)
  from Cons.prems(1) obtain bc1 where 1: "run_call caps c bc = Some bc1"
    and 2: "run_calls caps cs bc1 = Some bc'"
    by (auto split: option.splits)
  from run_call_linked[OF 1 Cons.prems(2,3)] Cons.IH[OF 2] show ?case by simp
qed

lemma new_blockchain_eq:
  "new_blockchain nid t0 =
     \<lparr> unconfirmed_transactions = [],
       chain = [\<lparr> block_number = 1, timestamp = t0, transactions = [], nonce = 0,
                  previous_hash = ''00'' \<rparr>],
       nodes = {}, node_id = nid, pet_registry = \<lparr> pets = Map.empty \<rparr> \<rparr>"
  by (simp add: new_blockchain_def create_block_def Let_def)

text \<open>
  C1. In every state that a run of the service reaches from a fresh
  \<^verbatim>\<open>Blockchain()\<close> (blocks are created by the constructor and by the mining route
  only), every block at an index \<open>i > 0\<close> of the chain has as \<^verbatim>\<open>previous_hash\<close>
  the hash of the block at index \<open>i - 1\<close>, the digest of that block's serialised
  fields.
\<close>

theorem mined_chain_is_hash_linked:
  assumes "run_calls caps cs (new_blockchain nid t0) = Some bc"
    and "0 < i" and "i < length (chain bc)"
  shows "previous_hash (chain bc ! i) = hash caps (chain bc ! (i - 1))"
proof -
  have "chain (new_blockchain nid t0) \<noteq> []" "chain_linked caps (chain (new_blockchain nid t0))"
    by (simp_all add: new_blockchain_eq chain_linked_def)
  from run_calls_linked[OF assms(1) this] assms(2,3) show ?thesis
    by (simp add: chain_linked_def)
qed

subsection \<open>The nonce search\<close>

lemma pow_loop_sound:
  assumes "pow_loop caps pool h n = Some k"
  shows "n \<le> k \<and> valid_guess caps pool h k \<and>
         (\<forall>m. n \<le> m \<and> m < k \<longrightarrow> \<not> valid_guess caps pool h m)"
proof (rule pow_loop.raw_induct[where P = "\<lambda>caps pool h n k. n \<le> k \<and> valid_guess caps pool h k \<and>
         (\<forall>m. n \<le> m \<and> m < k \<longrightarrow> \<not> valid_guess caps pool h m)", OF _ assms])
  fix f :: "capabilities \<Rightarrow> transaction list \<Rightarrow> string \<Rightarrow> nat \<Rightarrow> nat option"
  fix caps pool h n k
  assume IH: "\<And>caps pool h n k. f caps pool h n = Some k \<Longrightarrow>
      n \<le> k \<and> valid_guess caps pool h k \<and>
      (\<forall>m. n \<le> m \<and> m < k \<longrightarrow> \<not> valid_guess caps pool h m)"
  assume step: "(if valid_guess caps pool h n then Some n else f caps pool h (n + 1)) = Some k"
  show "n \<le> k \<and> valid_guess caps pool h k \<and>
      (\<forall>m. n \<le> m \<and> m < k \<longrightarrow> \<not> valid_guess caps pool h m)"
  proof (cases "valid_guess caps pool h n")
    case True
    with step have "n = k" by simp
    with True show ?thesis by auto
  next
    case False
    with step have "f caps pool h (n + 1) = Some k" by simp
    from IH[OF this] have k: "n + 1 \<le> k" "valid_guess caps pool h k"
      "\<forall>m. n + 1 \<le> m \<and> m < k \<longrightarrow> \<not> valid_guess caps pool h m" by blast+
    have "\<not> valid_guess caps pool h m" if "n \<le> m \<and> m < k" for m
    proof (cases "m = n")
      case True
      with False show ?thesis by simp
    next
      case False
      with that have "n + 1 \<le> m \<and> m < k" by arith
      with k(3) show ?thesis by blast
    qed
    moreover from k(1) have "n \<le> k" by arith
    ultimately show ?thesis using k(2) by blast
  qed
qed

lemma pow_loop_complete:
  "valid_guess caps pool h k \<Longrightarrow> n \<le> k \<Longrightarrow>
   (\<forall>m. n \<le> m \<and> m < k \<longrightarrow> \<not> valid_guess caps pool h m) \<Longrightarrow>
   pow_loop caps pool h n = Some k"
proof (induction "k - n" arbitrary: n)
  case 0
  then have "n = k" by simp
  with 0(2) have "valid_guess caps pool h n" by simp
  then show ?case using \<open>n = k\<close> by (subst pow_loop.simps) simp
next
  case (Suc d)
  then have lt: "n < k" by arith
  with Suc.prems(3) have nv: "\<not> valid_guess caps pool h n" by auto
  have "pow_loop caps pool h (n + 1) = Some k"
  proof (rule Suc.hyps(1))
    show "d = k - (n + 1)" using Suc.hyps(2) by arith
    show "valid_guess caps pool h k" by (rule Suc.prems(1))
    show "n + 1 \<le> k" using lt by arith
    show "\<forall>m. n + 1 \<le> m \<and> m < k \<longrightarrow> \<not> valid_guess caps pool h m"
      using Suc.prems(3) by (metis add_leD1)
  qed
  with nv show ?case by (subst pow_loop.simps) simp
qed

lemma pow_loop_Some_iff:
  "(pow_loop caps pool h 0 = Some n) =
     (valid_guess caps pool h n \<and> (\<forall>m<n. \<not> valid_guess caps pool h m))"
proof
  assume "pow_loop caps pool h 0 = Some n"
  from pow_loop_sound[OF this] show "valid_guess caps pool h n \<and> (\<forall>m<n. \<not> valid_guess caps pool h m)"
    by auto
next
  assume "valid_guess caps pool h n \<and> (\<forall>m<n. \<not> valid_guess caps pool h m)"
  then show "pow_loop caps pool h 0 = Some n"
    by (intro pow_loop_complete) auto
qed

lemma pow_loop_terminates:
  assumes "valid_guess caps pool h k"
  shows "\<exists>n. pow_loop caps pool h 0 = Some n"
proof -
  let ?n = "LEAST j. valid_guess caps pool h j"
  have "valid_guess caps pool h ?n" using assms by (rule LeastI)
  moreover have "\<forall>m < ?n. \<not> valid_guess caps pool h m"
    using not_less_Least by blast
  ultimately have "pow_loop caps pool h 0 = Some ?n"
    by (intro iffD2[OF pow_loop_Some_iff] conjI)
  then show ?thesis ..
qed

lemma pow_loop_None_iff:
  "(pow_loop caps pool h 0 = None) = (\<forall>k. \<not> valid_guess caps pool h k)"
proof
  assume n: "pow_loop caps pool h 0 = None"
  show "\<forall>k. \<not> valid_guess caps pool h k"
  proof (intro allI notI)
    fix k assume "valid_guess caps pool h k"
    from pow_loop_terminates[OF this] n show False by simp
  qed
next
  assume a: "\<forall>k. \<not> valid_guess caps pool h k"
  show "pow_loop caps pool h 0 = None"
  proof (cases "pow_loop caps pool h 0")
    case None
    then show ?thesis .
  next
    case (Some n)
    from pow_loop_sound[OF this] a show ?thesis by blast
  qed
qed

lemma replicate_two: "replicate 2 c = [c, c]"
  unfolding numeral_2_eq_2 by simp

lemma valid_guess_eq:
  "valid_guess caps pool h n =
     (take 2 (sha256_hexdigest caps (json_dumps caps (pool_json pool) @ h @ str_nat n)) = ''00'')"
  by (simp add: valid_guess_def MINING_DIFFICULTY_def replicate_two)

text \<open>
  C3. On a chain with a last block, \<^verbatim>\<open>proof_of_work\<close> returns \<open>n\<close> exactly when
  \<open>n\<close> is the smallest nonce for which the digest of the serialised pool, the last
  block's hash and the decimal digits of \<open>n\<close> starts with \<open>00\<close>. It returns
  whenever some nonce meets that target, and never returns exactly when none does. Its
  result is a function of the pool and the last block alone, so a second run on the same
  pool and last block gives the same nonce.
\<close>

theorem proof_of_work_least_nonce:
  assumes "chain bc \<noteq> []"
  shows
   "((proof_of_work caps bc = Some (Inr n)) =
       (take 2 (sha256_hexdigest caps
          (json_dumps caps (pool_json (unconfirmed_transactions bc)) @
           hash caps (last (chain bc)) @ str_nat n)) = ''00'' \<and>
        (\<forall>m<n. take 2 (sha256_hexdigest caps
          (json_dumps caps (pool_json (unconfirmed_transactions bc)) @
           hash caps (last (chain bc)) @ str_nat m)) \<noteq> ''00''))) \<and>
    ((\<exists>k. take 2 (sha256_hexdigest caps
          (json_dumps caps (pool_json (unconfirmed_transactions bc)) @
           hash caps (last (chain bc)) @ str_nat k)) = ''00'') \<longrightarrow>
       (\<exists>j. proof_of_work caps bc = Some (Inr j))) \<and>
    ((proof_of_work caps bc = None) =
       (\<forall>k. take 2 (sha256_hexdigest caps
          (json_dumps caps (pool_json (unconfirmed_transactions bc)) @
           hash caps (last (chain bc)) @ str_nat k)) \<noteq> ''00'')) \<and>
    (chain bc2 \<noteq> [] \<and> unconfirmed_transactions bc2 = unconfirmed_transactions bc \<and>
     last (chain bc2) = last (chain bc) \<longrightarrow>
       proof_of_work caps bc2 = proof_of_work caps bc)"
proof -
  let ?pool = "unconfirmed_transactions bc"
  let ?h = "hash caps (last (chain bc))"
  have p: "proof_of_work caps bc = map_option Inr (pow_loop caps ?pool ?h 0)"
    by (rule proof_of_work_nonempty[OF assms])
  have 1: "(proof_of_work caps bc = Some (Inr n)) =
      (valid_guess caps ?pool ?h n \<and> (\<forall>m<n. \<not> valid_guess caps ?pool ?h m))"
    unfolding p using pow_loop_Some_iff[of caps ?pool ?h n] by auto
  have 2: "(\<exists>k. valid_guess caps ?pool ?h k) \<longrightarrow> (\<exists>j. proof_of_work caps bc = Some (Inr j))"
    unfolding p using pow_loop_terminates[of caps ?pool ?h] by auto
  have 3: "(proof_of_work caps bc = None) = (\<forall>k. \<not> valid_guess caps ?pool ?h k)"
    unfolding p using pow_loop_None_iff[of caps ?pool ?h] by simp
  have 4: "chain bc2 \<noteq> [] \<and> unconfirmed_transactions bc2 = unconfirmed_transactions bc \<and>
     last (chain bc2) = last (chain bc) \<longrightarrow>
       proof_of_work caps bc2 = proof_of_work caps bc"
    by (auto simp add: proof_of_work_nonempty assms)
  show ?thesis
    by (intro conjI) (rule 1[unfolded valid_guess_eq], rule 2[unfolded valid_guess_eq],
        rule 3[unfolded valid_guess_eq], rule 4)
qed

subsection \<open>Mining in the small instance\<close>

lemma demo_valid_guess:
  "\<not> valid_guess demo_caps pool h 0"
  "\<not> valid_guess demo_caps pool h 1"
  "valid_guess demo_caps pool h 2"
  by (simp_all add: valid_guess_eq demo_caps_simps demo_digest_def str_nat_digit digit_char_def)

lemma demo_pow_loop: "pow_loop demo_caps pool h 0 = Some 2"
proof (rule pow_loop_complete)
  show "valid_guess demo_caps pool h 2" by (rule demo_valid_guess)
  show "(0::nat) \<le> 2" by simp
  show "\<forall>m. 0 \<le> m \<and> m < 2 \<longrightarrow> \<not> valid_guess demo_caps pool h m"
  proof (intro allI impI)
    fix m :: nat assume "0 \<le> m \<and> m < 2"
    then have "m = 0 \<or> m = 1" by arith
    then show "\<not> valid_guess demo_caps pool h m" using demo_valid_guess by auto
  qed
qed

lemma demo_registered_chain: "chain demo_registered = chain demo_genesis"
  by (simp add: demo_registered_eq)

lemma demo_registered_chain_nonempty: "chain demo_registered \<noteq> []"
  by (simp add: demo_registered_chain demo_genesis_eq)

lemma demo_proof_of_work: "proof_of_work demo_caps demo_registered = Some (Inr 2)"
  by (simp add: proof_of_work_nonempty[OF demo_registered_chain_nonempty] demo_pow_loop)

lemma demo_mine: "run_call demo_caps (Mine 8 9) demo_registered = Some demo_mined"
  by (simp add: mine_block_eq[OF demo_registered_chain_nonempty] demo_pow_loop demo_mined_def
      split: prod.splits)

lemma demo_run:
  "run_calls demo_caps [RegisterPet demo_pet_data (Some ''K1'') 1 2 3, Mine 8 9]
     (new_blockchain ''node'' 0) = Some demo_mined"
  using demo_mine by (simp add: demo_registered_def demo_genesis_def)

lemma demo_mined_chain:
  "chain demo_mined =
     chain demo_genesis @
       [\<lparr> block_number = 2, timestamp = 9,
          transactions = unconfirmed_transactions demo_registered @
                           [reward_tx demo_caps demo_registered 8],
          nonce = 2, previous_hash = hash demo_caps (last (chain demo_genesis)) \<rparr>]"
  by (simp add: demo_mined_def create_block_def Let_def demo_registered_chain demo_genesis_eq)

theorem mined_chain_is_hash_linked_witness:
  "run_calls demo_caps [RegisterPet demo_pet_data (Some ''K1'') 1 2 3, Mine 8 9]
     (new_blockchain ''node'' 0) = Some demo_mined \<and>
   length (chain demo_mined) = 2 \<and>
   previous_hash (chain demo_mined ! 1) = hash demo_caps (chain demo_mined ! 0) \<and>
   previous_hash (chain demo_mined ! 1) = ''7fb1''"
proof -
  have l: "length (chain demo_mined) = 2"
    by (simp add: demo_mined_chain demo_genesis_eq)
  have "previous_hash (chain demo_mined ! 1) = hash demo_caps (chain demo_mined ! (1 - 1))"
    by (rule mined_chain_is_hash_linked[OF demo_run]) (simp_all add: l)
  moreover have "previous_hash (chain demo_mined ! 1) = ''7fb1''"
    by (simp add: demo_mined_chain demo_genesis_eq hash_def block_json_def demo_caps_simps
        demo_dumps_def demo_digest_def str_nat_digit digit_char_def)
  ultimately show ?thesis using demo_run l by simp
qed

theorem proof_of_work_least_nonce_witness:
  "proof_of_work demo_caps demo_registered = Some (Inr 2) \<and>
   take 2 (sha256_hexdigest demo_caps
     (json_dumps demo_caps (pool_json (unconfirmed_transactions demo_registered)) @
      hash demo_caps (last (chain demo_registered)) @ str_nat 2)) = ''00'' \<and>
   take 2 (sha256_hexdigest demo_caps
     (json_dumps demo_caps (pool_json (unconfirmed_transactions demo_registered)) @
      hash demo_caps (last (chain demo_registered)) @ str_nat 1)) = ''7f'' \<and>
   take 2 (sha256_hexdigest demo_caps
     (json_dumps demo_caps (pool_json (unconfirmed_transactions demo_registered)) @
      hash demo_caps (last (chain demo_registered)) @ str_nat 0)) = ''7f'' \<and>
   proof_of_work demo_caps (demo_registered\<lparr>node_id := ''other''\<rparr>) =
     proof_of_work demo_caps demo_registered"
proof -
  note t = proof_of_work_least_nonce[OF demo_registered_chain_nonempty,
      where caps = demo_caps and n = 2 and ?bc2.0 = "demo_registered\<lparr>node_id := ''other''\<rparr>"]
  have a: "take 2 (sha256_hexdigest demo_caps
     (json_dumps demo_caps (pool_json (unconfirmed_transactions demo_registered)) @
      hash demo_caps (last (chain demo_registered)) @ str_nat 2)) = ''00''"
    using t demo_proof_of_work by simp
  have b: "take 2 (sha256_hexdigest demo_caps (x @ y @ str_nat 1)) = ''7f''"
          "take 2 (sha256_hexdigest demo_caps (x @ y @ str_nat 0)) = ''7f''" for x y
    by (simp_all add: demo_caps_simps demo_digest_def str_nat_digit digit_char_def)
  have c: "proof_of_work demo_caps (demo_registered\<lparr>node_id := ''other''\<rparr>) =
     proof_of_work demo_caps demo_registered"
    using t demo_registered_chain_nonempty by simp
  from a b c demo_proof_of_work show ?thesis by simp
qed

subsection \<open>View counts\<close>

lemma mine_keeps_registry:
  "run_call caps (Mine t1 t2) bc = Some bc' \<Longrightarrow> pet_registry bc' = pet_registry bc"
  by (drule run_call_Mine) (auto simp add: create_block_state)

lemma run_call_nonneg:
  assumes "run_call caps c bc = Some bc'" "view_counts_nonneg (pet_registry bc)"
  shows "view_counts_nonneg (pet_registry bc')"
proof (cases c)
  case (RegisterPet pd k t1 t2 t3)
  with assms show ?thesis
    by (auto simp add: register_pet_eq Let_def view_counts_nonneg_def demo_profile_fields
        split: if_splits)
next
  case (AddVetRecord pid rcd k t1 t2 t3 t4)
  with assms add_vet_record_to_pet_cases[of caps bc pid rcd k t1 t2 t3 t4]
  show ?thesis by (auto simp add: view_counts_nonneg_def split: if_splits)
next
  case (ViewProfile pid k t)
  with assms view_pet_profile_cases[of caps bc pid k t] show ?thesis
    by (auto simp add: view_counts_nonneg_def split: if_splits)
next
  case (ReportLost pid k loc descr t1 t2)
  with assms report_pet_lost_cases[of caps bc pid k loc descr t1 t2] show ?thesis
    by (auto simp add: view_counts_nonneg_def split: if_splits)
next
  case (ReportFound pid k contact t1 t2)
  with assms report_pet_found_cases[of caps bc pid k contact t1 t2] show ?thesis
    by (auto simp add: view_counts_nonneg_def split: if_splits)
next
  case (SubmitTransaction sender recipient sg amount t)
  with assms submit_transaction_cases_state[of caps bc sender recipient sg amount t]
  show ?thesis by auto
next
  case (Mine t1 t2)
  with assms show ?thesis by (simp add: mine_keeps_registry)
qed

lemma run_calls_nonneg:
  "run_calls caps cs bc = Some bc' \<Longrightarrow> view_counts_nonneg (pet_registry bc) \<Longrightarrow>
   view_counts_nonneg (pet_registry bc')"
proof (induction cs arbitrary: bc)
  case Nil
  then show ?case by simp
next
  case (Cons c cs)
  from Cons.prems(1) obtain bc1 where 1: "run_call caps c bc = Some bc1"
    and 2: "run_calls caps cs bc1 = Some bc'"
    by (auto split: option.splits)
  from Cons.IH[OF 2 run_call_nonneg[OF 1 Cons.prems(2)]] show ?case .
qed

text \<open>
  C9. For a pet id that the registry does not hold, \<^verbatim>\<open>increment_view_count\<close> returns
  0 and the registry is unchanged. View counts start at 0 and are only ever incremented,
  so in every state a run reaches no count is negative; there an increment of a known pet
  returns at least 1, and the result is 0 exactly when the id is unknown.
\<close>

theorem increment_view_count_zero_iff_unknown:
  "(pets reg pid = None \<longrightarrow> increment_view_count reg pid = (0, reg)) \<and>
   (view_counts_nonneg reg \<longrightarrow>
      (fst (increment_view_count reg pid) = 0) = (pets reg pid = None) \<and>
      (pets reg pid \<noteq> None \<longrightarrow> 1 \<le> fst (increment_view_count reg pid))) \<and>
   (run_calls caps cs (new_blockchain nid t0) = Some bc \<longrightarrow>
      view_counts_nonneg (pet_registry bc))"
proof (intro conjI impI)
  assume "pets reg pid = None"
  then show "increment_view_count reg pid = (0, reg)"
    by (simp add: increment_view_count_def)
next
  assume n: "view_counts_nonneg reg"
  show "(fst (increment_view_count reg pid) = 0) = (pets reg pid = None)"
  proof (cases "pets reg pid")
    case None
    then show ?thesis by (simp add: increment_view_count_def)
  next
    case (Some pet)
    with n have "0 \<le> view_count pet" by (simp add: view_counts_nonneg_def)
    with Some show ?thesis by (simp add: increment_view_count_def)
  qed
next
  assume n: "view_counts_nonneg reg" and k: "pets reg pid \<noteq> None"
  then obtain pet where p: "pets reg pid = Some pet" by auto
  with n have "0 \<le> view_count pet" by (simp add: view_counts_nonneg_def)
  with p show "1 \<le> fst (increment_view_count reg pid)"
    by (simp add: increment_view_count_def)
next
  assume "run_calls caps cs (new_blockchain nid t0) = Some bc"
  moreover have "view_counts_nonneg (pet_registry (new_blockchain nid t0))"
    by (simp add: new_blockchain_eq view_counts_nonneg_def)
  ultimately show "view_counts_nonneg (pet_registry bc)" by (rule run_calls_nonneg)
qed

theorem increment_view_count_zero_iff_unknown_witness:
  "increment_view_count (pet_registry demo_mined) ''nope'' = (0, pet_registry demo_mined) \<and>
   view_counts_nonneg (pet_registry demo_mined) \<and>
   fst (increment_view_count (pet_registry demo_mined) demo_pid) = 1"
proof -
  note t = increment_view_count_zero_iff_unknown[where reg = "pet_registry demo_mined"
      and caps = demo_caps and bc = demo_mined and nid = "''node''" and ?t0.0 = 0
      and cs = "[RegisterPet demo_pet_data (Some ''K1'') 1 2 3, Mine 8 9]"]
  have r: "pet_registry demo_mined = pet_registry demo_registered"
    by (simp add: demo_mined_def create_block_state)
  have a: "increment_view_count (pet_registry demo_mined) ''nope'' = (0, pet_registry demo_mined)"
    using t[where pid = "''nope''"] by (simp add: r demo_unknown_pet)
  have b: "view_counts_nonneg (pet_registry demo_mined)"
    using t[where pid = "''nope''"] demo_run by simp
  have c: "fst (increment_view_count (pet_registry demo_mined) demo_pid) = 1"
    by (simp add: r increment_view_count_def demo_registered_pet demo_profile_fields)
  from a b c show ?thesis by simp
qed

subsection \<open>The history of a pet\<close>

lemma scan_block_eq:
  "scan_block blk pid txs history =
     history @ map (mined_entry blk) (filter (\<lambda>tx. pet_id_matches tx pid) txs)"
  by (induction txs arbitrary: history) simp_all

lemma scan_chain_eq:
  "scan_chain blks pid history =
     history @ concat (map (\<lambda>blk. map (mined_entry blk)
                              (filter (\<lambda>tx. pet_id_matches tx pid) (transactions blk))) blks)"
  by (induction blks arbitrary: history) (simp_all add: scan_block_eq)

lemma scan_pool_eq:
  "scan_pool txs pid history =
     history @ map pending_entry (filter (\<lambda>tx. pet_id_matches tx pid) txs)"
  by (induction txs arbitrary: history) simp_all

lemma history_eq:
  "get_pet_blockchain_history bc pid =
     concat (map (\<lambda>blk. map (mined_entry blk)
                    (filter (\<lambda>tx. pet_id_matches tx pid) (transactions blk))) (chain bc)) @
     map pending_entry (filter (\<lambda>tx. pet_id_matches tx pid) (unconfirmed_transactions bc))"
  by (simp add: get_pet_blockchain_history_def scan_chain_eq scan_pool_eq)

lemma map_of_update_other: "k' \<noteq> k \<Longrightarrow> map_of (AList.update k v al) k' = map_of al k'"
  by (simp add: update_conv')

lemma map_of_update_same: "map_of (AList.update k v al) k = Some v"
  by (simp add: update_conv')

lemma mined_entry_keys:
  "map_of (mined_entry blk tx) ''block_number'' = Some (JInt (int (block_number blk)))"
  "map_of (mined_entry blk tx) ''block_timestamp'' = Some (JFloat (timestamp blk))"
  "k \<noteq> ''block_number'' \<Longrightarrow> k \<noteq> ''block_timestamp'' \<Longrightarrow>
     map_of (mined_entry blk tx) k = map_of tx k"
  by (simp_all add: mined_entry_def update_conv')

lemma pending_entry_keys:
  "map_of (pending_entry tx) ''status'' = Some (JStr ''pending'')"
  "k \<noteq> ''status'' \<Longrightarrow> map_of (pending_entry tx) k = map_of tx k"
  by (simp_all add: pending_entry_def update_conv')

lemma registration_tx_matches:
  "pet_id_matches (registration_tx caps pid pd k t) q = (q = pid)"
  by (auto simp add: pet_id_matches_def registration_tx_def)

lemma transfer_tx_no_match: "\<not> pet_id_matches (transfer_tx caps s r a t) q"
  by (simp add: pet_id_matches_def transfer_tx_def)

lemma registration_tx_no_status: "map_of (registration_tx caps pid pd k t) ''status'' = None"
  by (simp add: registration_tx_def)

lemma history_after_registration:
  assumes "get_pet_blockchain_history bc (fst (register_pet caps bc pd k t1 t2 t3)) = []"
  shows "get_pet_blockchain_history (snd (register_pet caps bc pd k t1 t2 t3))
           (fst (register_pet caps bc pd k t1 t2 t3)) =
         [pending_entry (registration_tx caps (fst (register_pet caps bc pd k t1 t2 t3)) pd k t3)]"
  using assms
  by (simp add: history_eq register_pet_eq Let_def registration_tx_matches)

lemma history_after_mining:
  assumes e: "get_pet_blockchain_history bc pid = []"
    and r: "register_pet caps bc pd k t1 t2 t3 = (pid, bc1)"
    and m: "mine_block caps bc1 t4 t5 = Some (Inr (blk, bc2))"
  shows "get_pet_blockchain_history bc2 pid = [mined_entry blk (registration_tx caps pid pd k t3)]
         \<and> block_number blk = length (chain bc) + 1 \<and> last (chain bc2) = blk"
proof -
  from r have pid: "pid = generate_pet_id caps
                  (dict_get_default pd ''microchip_id'' (Some ''NO_CHIP'')) k t1"
    and bc1: "bc1 = bc\<lparr>pet_registry := (pet_registry bc)\<lparr>pets := (pets (pet_registry bc))
                 (pid \<mapsto> new_profile caps pid (pd(''owner_public_key'' \<mapsto> k)) t2)\<rparr>,
             unconfirmed_transactions :=
               unconfirmed_transactions bc @ [registration_tx caps pid pd k t3]\<rparr>"
    by (auto simp add: register_pet_eq Let_def)
  have ne: "chain bc1 \<noteq> []"
  proof
    assume "chain bc1 = []"
    with m show False by (simp add: mine_block_empty)
  qed
  have "\<exists>n. (blk, bc2) = create_block
                       (bc1\<lparr>unconfirmed_transactions :=
                             unconfirmed_transactions bc1 @ [reward_tx caps bc1 t4]\<rparr>)
                       n (hash caps (last (chain bc1))) t5"
  proof (cases "pow_loop caps (unconfirmed_transactions bc1) (hash caps (last (chain bc1))) 0")
    case None
    with m show ?thesis by (simp add: mine_block_eq[OF ne])
  next
    case (Some n)
    with m have "(blk, bc2) = create_block
                       (bc1\<lparr>unconfirmed_transactions :=
                             unconfirmed_transactions bc1 @ [reward_tx caps bc1 t4]\<rparr>)
                       n (hash caps (last (chain bc1))) t5"
      by (simp add: mine_block_eq[OF ne])
    then show ?thesis ..
  qed
  then obtain n where
    b: "(blk, bc2) = create_block
                       (bc1\<lparr>unconfirmed_transactions :=
                             unconfirmed_transactions bc1 @ [reward_tx caps bc1 t4]\<rparr>)
                       n (hash caps (last (chain bc1))) t5" ..
  from b have blk: "transactions blk = unconfirmed_transactions bc1 @ [reward_tx caps bc1 t4]"
      "block_number blk = length (chain bc1) + 1"
    and bc2: "chain bc2 = chain bc1 @ [blk]" "unconfirmed_transactions bc2 = []"
    by (auto simp add: create_block_def Let_def)
  from e have c: "concat (map (\<lambda>blk. map (mined_entry blk)
                    (filter (\<lambda>tx. pet_id_matches tx pid) (transactions blk))) (chain bc)) = []"
    and p: "filter (\<lambda>tx. pet_id_matches tx pid) (unconfirmed_transactions bc) = []"
    by (simp_all add: history_eq)
  have "get_pet_blockchain_history bc2 pid = [mined_entry blk (registration_tx caps pid pd k t3)]"
    unfolding history_eq bc2 using c p
    by (simp add: blk bc1 registration_tx_matches reward_tx_def transfer_tx_no_match)
  with blk(2) bc2(1) show ?thesis by (simp add: bc1)
qed

text \<open>
  C8. \<^verbatim>\<open>get_pet_blockchain_history\<close> returns, for the blocks of the chain from the
  oldest on, the transactions of the block whose \<^verbatim>\<open>pet_id\<close> is the id asked for, in
  block order, each with the keys \<^verbatim>\<open>block_number\<close> and \<^verbatim>\<open>block_timestamp\<close> of
  its block; then the matching transactions of the pool in insertion order, each with
  \<^verbatim>\<open>status\<close> \<open>pending\<close>; the other keys of an entry are those of the transaction.
  A fresh service has no history for any id. When the id a registration returns had no
  history, the history after the registration is the one pending registration entry; and
  when mining then returns a block, the history is that one registration with the number
  of the new block and no \<^verbatim>\<open>status\<close> key, the pending entry being gone.
\<close>

theorem history_mined_then_pending:
  "get_pet_blockchain_history bc pid =
     concat (map (\<lambda>blk. map (mined_entry blk)
                    (filter (\<lambda>tx. pet_id_matches tx pid) (transactions blk))) (chain bc)) @
     map pending_entry (filter (\<lambda>tx. pet_id_matches tx pid) (unconfirmed_transactions bc)) \<and>
   map_of (mined_entry b tx) ''block_number'' = Some (JInt (int (block_number b))) \<and>
   map_of (mined_entry b tx) ''block_timestamp'' = Some (JFloat (timestamp b)) \<and>
   map_of (pending_entry tx) ''status'' = Some (JStr ''pending'') \<and>
   (key \<noteq> ''block_number'' \<and> key \<noteq> ''block_timestamp'' \<longrightarrow>
      map_of (mined_entry b tx) key = map_of tx key) \<and>
   (key \<noteq> ''status'' \<longrightarrow> map_of (pending_entry tx) key = map_of tx key) \<and>
   get_pet_blockchain_history (new_blockchain nid t0) pid = [] \<and>
   (get_pet_blockchain_history bc0 (fst (register_pet caps bc0 pd k t1 t2 t3)) = [] \<longrightarrow>
      get_pet_blockchain_history (snd (register_pet caps bc0 pd k t1 t2 t3))
          (fst (register_pet caps bc0 pd k t1 t2 t3)) =
        [pending_entry
           (registration_tx caps (fst (register_pet caps bc0 pd k t1 t2 t3)) pd k t3)] \<and>
      (\<forall>blk bc2.
         mine_block caps (snd (register_pet caps bc0 pd k t1 t2 t3)) t4 t5 =
           Some (Inr (blk, bc2)) \<longrightarrow>
         get_pet_blockchain_history bc2 (fst (register_pet caps bc0 pd k t1 t2 t3)) =
           [mined_entry blk
              (registration_tx caps (fst (register_pet caps bc0 pd k t1 t2 t3)) pd k t3)] \<and>
         block_number blk = length (chain bc0) + 1 \<and>
         map_of (mined_entry blk
              (registration_tx caps (fst (register_pet caps bc0 pd k t1 t2 t3)) pd k t3))
            ''status'' = None))"
proof -
  have fresh: "get_pet_blockchain_history (new_blockchain nid t0) pid = []"
    by (simp add: history_eq new_blockchain_eq)
  have scen: "get_pet_blockchain_history bc2 (fst (register_pet caps bc0 pd k t1 t2 t3)) =
           [mined_entry blk
              (registration_tx caps (fst (register_pet caps bc0 pd k t1 t2 t3)) pd k t3)] \<and>
         block_number blk = length (chain bc0) + 1 \<and>
         map_of (mined_entry blk
              (registration_tx caps (fst (register_pet caps bc0 pd k t1 t2 t3)) pd k t3))
            ''status'' = None"
    if e: "get_pet_blockchain_history bc0 (fst (register_pet caps bc0 pd k t1 t2 t3)) = []"
      and m: "mine_block caps (snd (register_pet caps bc0 pd k t1 t2 t3)) t4 t5 =
           Some (Inr (blk, bc2))" for blk bc2
  proof -
    have r: "register_pet caps bc0 pd k t1 t2 t3 =
        (fst (register_pet caps bc0 pd k t1 t2 t3), snd (register_pet caps bc0 pd k t1 t2 t3))"
      by simp
    from history_after_mining[OF e r m] show ?thesis
      by (simp add: mined_entry_keys registration_tx_no_status)
  qed
  show ?thesis
    using fresh scen
    by (simp add: history_eq[symmetric] mined_entry_keys pending_entry_keys
        history_after_registration)
qed

lemma demo_mine_block:
  "mine_block demo_caps demo_registered 8 9 = Some (Inr (last (chain demo_mined), demo_mined))"
  by (simp add: mine_block_eq[OF demo_registered_chain_nonempty] demo_pow_loop demo_mined_def
      create_block_def Let_def)

theorem history_mined_then_pending_witness:
  "get_pet_blockchain_history demo_genesis demo_pid = [] \<and>
   get_pet_blockchain_history demo_registered demo_pid =
     [pending_entry (registration_tx demo_caps demo_pid demo_pet_data (Some ''K1'') 3)] \<and>
   get_pet_blockchain_history demo_mined demo_pid =
     [mined_entry (last (chain demo_mined))
        (registration_tx demo_caps demo_pid demo_pet_data (Some ''K1'') 3)] \<and>
   block_number (last (chain demo_mined)) = 2 \<and>
   map_of (mined_entry (last (chain demo_mined))
        (registration_tx demo_caps demo_pid demo_pet_data (Some ''K1'') 3)) ''status'' = None"
proof -
  note t = history_mined_then_pending[where caps = demo_caps and ?bc0.0 = demo_genesis
      and pd = demo_pet_data and k = "Some ''K1''" and ?t1.0 = 1 and ?t2.0 = 2 and ?t3.0 = 3
      and ?t4.0 = 8 and ?t5.0 = 9 and nid = "''node''" and ?t0.0 = 0 and pid = demo_pid
      and bc = demo_genesis and b = "last (chain demo_mined)" and tx = "[]"
      and key = "''status''"]
  note c2 = conjunct2
  have f: "fst (register_pet demo_caps demo_genesis demo_pet_data (Some ''K1'') 1 2 3) = demo_pid"
    by (simp add: register_pet_eq Let_def dict_get_default_def demo_pet_data_def demo_generate)
  have s: "snd (register_pet demo_caps demo_genesis demo_pet_data (Some ''K1'') 1 2 3) =
      demo_registered"
    by (simp add: demo_registered_def)
  have e: "get_pet_blockchain_history demo_genesis demo_pid = []"
    using t[THEN c2, THEN c2, THEN c2, THEN c2, THEN c2, THEN c2, THEN conjunct1]
    by (simp add: demo_genesis_def)
  note sc = t[THEN c2, THEN c2, THEN c2, THEN c2, THEN c2, THEN c2, THEN c2,
      unfolded f s, rule_format, OF e]
  from sc[THEN conjunct2, rule_format, OF demo_mine_block] sc[THEN conjunct1] e
  show ?thesis by (simp add: demo_genesis_length)
qed

subsection \<open>The status of a pet\<close>

lemma new_profile_status: "status (new_profile caps pid pd t) = Active"
  by (simp add: new_profile_def Let_def)

lemma register_pet_pets:
  "pets (pet_registry (snd (register_pet caps bc pd k t1 t2 t3))) =
     (pets (pet_registry bc))
       (fst (register_pet caps bc pd k t1 t2 t3) \<mapsto>
          new_profile caps (fst (register_pet caps bc pd k t1 t2 t3))
            (pd(''owner_public_key'' \<mapsto> k)) t2)"
  by (simp add: register_pet_eq Let_def)

text \<open>What one call can do to the status of a pet that is not the one a registration
  writes.\<close>

lemma run_call_status:
  assumes r: "run_call caps c bc = Some bc'"
    and p: "pets (pet_registry bc) pid = Some p"
    and n: "\<forall>pd k t1 t2 t3. c = RegisterPet pd k t1 t2 t3 \<longrightarrow>
              fst (register_pet caps bc pd k t1 t2 t3) \<noteq> pid"
  shows "\<exists>p'. pets (pet_registry bc') pid = Some p' \<and>
     (status p' = status p \<or>
      status p = Active \<and> status p' = Lost \<and>
        (\<exists>loc descr t1 t2. c = ReportLost pid (owner_public_key p) loc descr t1 t2) \<or>
      status p = Lost \<and> status p' = Active \<and>
        (\<exists>k contact t1 t2. c = ReportFound pid k contact t1 t2))"
proof (cases c)
  case (RegisterPet pd k t1 t2 t3)
  with n have "fst (register_pet caps bc pd k t1 t2 t3) \<noteq> pid" by simp
  moreover from r RegisterPet have "bc' = snd (register_pet caps bc pd k t1 t2 t3)" by simp
  ultimately show ?thesis using p by (simp add: register_pet_pets)
next
  case (AddVetRecord q rcd k t1 t2 t3 t4)
  with r p add_vet_record_to_pet_cases[of caps bc q rcd k t1 t2 t3 t4]
  show ?thesis by (auto split: if_splits)
next
  case (ViewProfile q k t)
  with r p view_pet_profile_cases[of caps bc q k t] show ?thesis
    by (auto split: if_splits)
next
  case (ReportLost q k loc descr t1 t2)
  with r p report_pet_lost_cases[of caps bc q k loc descr t1 t2] show ?thesis
    by (cases "status p") (auto split: if_splits)
next
  case (ReportFound q k contact t1 t2)
  with r p report_pet_found_cases[of caps bc q k contact t1 t2] show ?thesis
    by (auto split: if_splits)
next
  case (SubmitTransaction sender recipient sg amount t)
  with r p submit_transaction_cases_state[of caps bc sender recipient sg amount t]
  show ?thesis by auto
next
  case (Mine t1 t2)
  with r p show ?thesis by (simp add: mine_keeps_registry)
qed

lemma demo_tick_pid:
  "fst (register_pet demo_caps bc demo_pet_data (Some ''K1'') 1 t2 t3) = demo_pid"
  by (simp add: register_pet_eq Let_def dict_get_default_def demo_pet_data_def demo_generate)

lemma demo_tick_registered_pet:
  "pets (pet_registry demo_tick_registered) demo_pid =
     Some (new_profile demo_caps demo_pid (demo_pet_data(''owner_public_key'' \<mapsto> Some ''K1'')) 1)"
  by (simp add: demo_tick_registered_def register_pet_pets demo_tick_pid)

lemma demo_tick_owner:
  "owner_public_key
     (new_profile demo_caps demo_pid (demo_pet_data(''owner_public_key'' \<mapsto> Some ''K1'')) t) =
   Some ''K1''"
  by (simp add: new_profile_def dict_get_def Let_def)

lemma demo_tick_lost_pet:
  "map_option status (pets (pet_registry demo_tick_lost) demo_pid) = Some Lost"
  by (simp add: demo_tick_lost_def
      report_pet_lost_ok[OF demo_tick_registered_pet demo_tick_owner])

lemma demo_tick_lost_again_pet:
  "map_option status (pets (pet_registry demo_tick_lost_again) demo_pid) = Some Active"
  by (simp add: demo_tick_lost_again_def register_pet_pets demo_tick_pid new_profile_status)

lemma demo_tick_lost_again_found_by:
  "map_option found_by (pets (pet_registry demo_tick_lost_again) demo_pid) = Some None"
  by (simp add: demo_tick_lost_again_def register_pet_pets demo_tick_pid demo_profile_fields)

text \<open>
  C4. The status of a registered pet is meant to change only from active to lost by
  \<^verbatim>\<open>report_pet_lost\<close> with the stored owner key and from lost to active by
  \<^verbatim>\<open>report_pet_found\<close>, and \<open>run_call_status\<close> shows that this is what every call
  does that is not a registration returning the id of that pet. \<^verbatim>\<open>register_pet\<close>
  does not check that the id it generates is unused: the id is a digest of the microchip
  id, the owner key and one clock reading, so a second registration with the same
  microchip id and owner key that reads the same clock value returns the id of the
  first and replaces its profile. In this run the pet is registered and reported lost,
  and the second registration returns the same id: the pet that was lost is active
  after it, with no \<^verbatim>\<open>found_by\<close>, and the call between the two states is
  \<^verbatim>\<open>register_pet\<close>, not \<^verbatim>\<open>report_pet_found\<close>.
\<close>

theorem register_pet_same_id_resets_lost_status:
  "run_calls demo_caps
     [RegisterPet demo_pet_data (Some ''K1'') 1 1 1,
      ReportLost demo_pid (Some ''K1'') (Some ''Park'') (Some ''ran off'') 1 1]
     (new_blockchain ''node'' 0) = Some demo_tick_lost \<and>
   run_call demo_caps (RegisterPet demo_pet_data (Some ''K1'') 1 1 1) demo_tick_lost =
     Some demo_tick_lost_again \<and>
   fst (register_pet demo_caps (new_blockchain ''node'' 0) demo_pet_data (Some ''K1'') 1 1 1) =
     demo_pid \<and>
   fst (register_pet demo_caps demo_tick_lost demo_pet_data (Some ''K1'') 1 1 1) = demo_pid \<and>
   map_option status (pets (pet_registry demo_tick_lost) demo_pid) = Some Lost \<and>
   map_option status (pets (pet_registry demo_tick_lost_again) demo_pid) = Some Active \<and>
   map_option found_by (pets (pet_registry demo_tick_lost_again) demo_pid) = Some None"
proof (intro conjI)
  show "run_calls demo_caps
     [RegisterPet demo_pet_data (Some ''K1'') 1 1 1,
      ReportLost demo_pid (Some ''K1'') (Some ''Park'') (Some ''ran off'') 1 1]
     (new_blockchain ''node'' 0) = Some demo_tick_lost"
    by (simp add: demo_tick_lost_def demo_tick_registered_def demo_genesis_def)
  show "run_call demo_caps (RegisterPet demo_pet_data (Some ''K1'') 1 1 1) demo_tick_lost =
     Some demo_tick_lost_again"
    by (simp add: demo_tick_lost_again_def)
  show "fst (register_pet demo_caps (new_blockchain ''node'' 0) demo_pet_data
               (Some ''K1'') 1 1 1) = demo_pid"
    by (rule demo_tick_pid)
  show "fst (register_pet demo_caps demo_tick_lost demo_pet_data (Some ''K1'') 1 1 1) = demo_pid"
    by (rule demo_tick_pid)
  show "map_option status (pets (pet_registry demo_tick_lost) demo_pid) = Some Lost"
    by (rule demo_tick_lost_pet)
  show "map_option status (pets (pet_registry demo_tick_lost_again) demo_pid) = Some Active"
    by (rule demo_tick_lost_again_pet)
  show "map_option found_by (pets (pet_registry demo_tick_lost_again) demo_pid) = Some None"
    by (rule demo_tick_lost_again_found_by)
qed

subsection \<open>View events and view counts\<close>

lemma is_view_of_simps:
  "is_view_of (profile_view_tx pid h n t) q = (q = pid)"
  "\<not> is_view_of (registration_tx caps pid pd k t) q"
  "\<not> is_view_of (vet_record_tx caps pid rc k t) q"
  "\<not> is_view_of (pet_lost_tx caps pid loc descr k t) q"
  "\<not> is_view_of (pet_found_tx pid h contact t) q"
  "\<not> is_view_of (transfer_tx caps s r a t) q"
  by (auto simp add: is_view_of_def profile_view_tx_def registration_tx_def vet_record_tx_def
      pet_lost_tx_def pet_found_tx_def transfer_tx_def)

lemma profile_view_tx_count:
  "map_of (profile_view_tx pid h n t) ''view_count'' = Some (JInt n)"
  by (simp add: profile_view_tx_def)

lemma all_transactions_pool_snoc:
  "all_transactions (bc\<lparr>pet_registry := reg,
       unconfirmed_transactions := unconfirmed_transactions bc @ [tx]\<rparr>) =
     all_transactions bc @ [tx]"
  "all_transactions (bc\<lparr>unconfirmed_transactions := unconfirmed_transactions bc @ [tx]\<rparr>) =
     all_transactions bc @ [tx]"
  "all_transactions (bc\<lparr>pet_registry := reg\<rparr>) = all_transactions bc"
  by (simp_all add: all_transactions_def)

lemma demo_viewer_key:
  "hashed_key_value demo_caps (PyStr ''V1'') = Inr (take 24 (demo_digest ''V1''))"
  by (simp add: hashed_key_value_def demo_caps_simps)

lemma demo_tick_viewed_eq:
  "demo_tick_viewed =
     demo_tick_registered\<lparr>pet_registry := (pet_registry demo_tick_registered)\<lparr>pets :=
         (pets (pet_registry demo_tick_registered))
           (demo_pid \<mapsto>
              (new_profile demo_caps demo_pid
                 (demo_pet_data(''owner_public_key'' \<mapsto> Some ''K1'')) 1)\<lparr>view_count := 1\<rparr>)\<rparr>,
       unconfirmed_transactions :=
         unconfirmed_transactions demo_tick_registered @
           [profile_view_tx demo_pid (take 24 (demo_digest ''V1'')) 1 1]\<rparr>"
  by (simp add: demo_tick_viewed_def
      view_pet_profile_ok[OF demo_tick_registered_pet demo_viewer_key] demo_profile_fields)

lemma demo_tick_registered_ledger:
  "all_transactions demo_tick_registered =
     [registration_tx demo_caps demo_pid demo_pet_data (Some ''K1'') 1]"
  by (simp add: demo_tick_registered_def register_pet_eq Let_def demo_tick_pid[unfolded register_pet_eq Let_def, simplified]
      all_transactions_pool_snoc dict_get_default_def demo_pet_data_def demo_generate
      all_transactions_def demo_genesis_eq)

lemma demo_tick_viewed_again_ledger:
  "all_transactions demo_tick_viewed_again =
     [registration_tx demo_caps demo_pid demo_pet_data (Some ''K1'') 1,
      profile_view_tx demo_pid (take 24 (demo_digest ''V1'')) 1 1,
      registration_tx demo_caps demo_pid demo_pet_data (Some ''K1'') 1]"
proof -
  have "all_transactions demo_tick_viewed =
      [registration_tx demo_caps demo_pid demo_pet_data (Some ''K1'') 1,
       profile_view_tx demo_pid (take 24 (demo_digest ''V1'')) 1 1]"
    by (simp add: demo_tick_viewed_eq all_transactions_pool_snoc demo_tick_registered_ledger)
  moreover have "all_transactions demo_tick_viewed_again =
      all_transactions demo_tick_viewed @
        [registration_tx demo_caps demo_pid demo_pet_data (Some ''K1'') 1]"
    by (simp add: demo_tick_viewed_again_def register_pet_eq Let_def all_transactions_pool_snoc
        dict_get_default_def demo_pet_data_def demo_generate)
  ultimately show ?thesis by simp
qed

lemma demo_registered_ledger:
  "all_transactions demo_registered =
     [registration_tx demo_caps demo_pid demo_pet_data (Some ''K1'') 3]"
  by (simp add: demo_registered_eq all_transactions_pool_snoc all_transactions_def
      demo_genesis_eq)

lemma demo_viewed_eq:
  "demo_viewed =
     demo_registered\<lparr>pet_registry := (pet_registry demo_registered)\<lparr>pets :=
         (pets (pet_registry demo_registered))
           (demo_pid \<mapsto>
              (new_profile demo_caps demo_pid
                 (demo_pet_data(''owner_public_key'' \<mapsto> Some ''K1'')) 2)\<lparr>view_count := 1\<rparr>)\<rparr>,
       unconfirmed_transactions :=
         unconfirmed_transactions demo_registered @
           [profile_view_tx demo_pid (take 24 (demo_digest ''V1'')) 1 4]\<rparr>"
  by (simp add: demo_viewed_def view_pet_profile_ok[OF demo_registered_pet demo_viewer_key]
      demo_profile_fields)

lemma demo_view_raised_eq:
  "demo_view_raised =
     demo_registered\<lparr>pet_registry := (pet_registry demo_registered)\<lparr>pets :=
         (pets (pet_registry demo_registered))
           (demo_pid \<mapsto>
              (new_profile demo_caps demo_pid
                 (demo_pet_data(''owner_public_key'' \<mapsto> Some ''K1'')) 2)\<lparr>view_count := 1\<rparr>)\<rparr>\<rparr>"
  by (simp add: demo_view_raised_def
      view_pet_profile_raises[OF demo_registered_pet hashed_key_value_number]
      demo_profile_fields)

text \<open>
  C6. \<^verbatim>\<open>view_pet_profile\<close> returns \<^verbatim>\<open>False\<close> exactly when the id is unknown, and
  when it returns \<^verbatim>\<open>True\<close> it has incremented the count and appended a
  \<^verbatim>\<open>PROFILE_VIEW\<close> transaction carrying the new count (\<open>view_pet_profile_cases\<close>).
  The count of a pet is nevertheless not the number of its view events in every state a
  run reaches, in two ways. First, the count is incremented before
  \<^verbatim>\<open>hashed_key(viewer_public_key)\<close> is evaluated: a view of the registered pet
  with a text key returns \<^verbatim>\<open>True\<close> and leaves count 1 and one view event, but with
  the number 5 as the viewer key the call raises \<^verbatim>\<open>AttributeError\<close> after the
  increment, and the pet has count 1 with no view event in the ledger. Second, \<^verbatim>\<open>register_pet\<close> does not check that
  the id it generates is unused: after registering, viewing once and registering again
  with the same microchip id, owner key and clock reading, the profile is a new one with
  count 0 while the ledger keeps the view event of that id.
\<close>

theorem view_count_differs_from_view_events:
  "fst (view_pet_profile demo_caps demo_registered demo_pid (PyStr ''V1'') 4) = Inr True \<and>
   map_option view_count (pets (pet_registry demo_viewed) demo_pid) = Some 1 \<and>
   view_events (all_transactions demo_viewed) demo_pid = [Some (JInt 1)] \<and>
   run_calls demo_caps
     [RegisterPet demo_pet_data (Some ''K1'') 1 2 3, ViewProfile demo_pid (PyInt 5) 4]
     (new_blockchain ''node'' 0) = Some demo_view_raised \<and>
   fst (view_pet_profile demo_caps demo_registered demo_pid (PyInt 5) 4) = Inl AttributeError \<and>
   map_option view_count (pets (pet_registry demo_registered) demo_pid) = Some 0 \<and>
   map_option view_count (pets (pet_registry demo_view_raised) demo_pid) = Some 1 \<and>
   view_events (all_transactions demo_view_raised) demo_pid = [] \<and>
   run_calls demo_caps
     [RegisterPet demo_pet_data (Some ''K1'') 1 1 1,
      ViewProfile demo_pid (PyStr ''V1'') 1,
      RegisterPet demo_pet_data (Some ''K1'') 1 1 1]
     (new_blockchain ''node'' 0) = Some demo_tick_viewed_again \<and>
   map_option view_count (pets (pet_registry demo_tick_viewed) demo_pid) = Some 1 \<and>
   map_option view_count (pets (pet_registry demo_tick_viewed_again) demo_pid) = Some 0 \<and>
   view_events (all_transactions demo_tick_viewed_again) demo_pid = [Some (JInt 1)]"
proof (intro conjI)
  show "fst (view_pet_profile demo_caps demo_registered demo_pid (PyStr ''V1'') 4) = Inr True"
    by (simp add: view_pet_profile_ok[OF demo_registered_pet demo_viewer_key])
  show "map_option view_count (pets (pet_registry demo_viewed) demo_pid) = Some 1"
    by (simp add: demo_viewed_eq)
  show "view_events (all_transactions demo_viewed) demo_pid = [Some (JInt 1)]"
    by (simp add: demo_viewed_eq all_transactions_pool_snoc demo_registered_ledger
        view_events_def is_view_of_simps profile_view_tx_count)
  show "run_calls demo_caps
     [RegisterPet demo_pet_data (Some ''K1'') 1 2 3, ViewProfile demo_pid (PyInt 5) 4]
     (new_blockchain ''node'' 0) = Some demo_view_raised"
    by (simp add: demo_view_raised_def demo_registered_def demo_genesis_def)
  show "fst (view_pet_profile demo_caps demo_registered demo_pid (PyInt 5) 4) =
      Inl AttributeError"
    by (simp add: view_pet_profile_raises[OF demo_registered_pet hashed_key_value_number])
  show "map_option view_count (pets (pet_registry demo_registered) demo_pid) = Some 0"
    by (simp add: demo_registered_pet demo_profile_fields)
  show "map_option view_count (pets (pet_registry demo_view_raised) demo_pid) = Some 1"
    by (simp add: demo_view_raised_eq)
  show "view_events (all_transactions demo_view_raised) demo_pid = []"
    by (simp add: demo_view_raised_eq all_transactions_pool_snoc demo_registered_ledger
        view_events_def is_view_of_simps)
  show "run_calls demo_caps
     [RegisterPet demo_pet_data (Some ''K1'') 1 1 1,
      ViewProfile demo_pid (PyStr ''V1'') 1,
      RegisterPet demo_pet_data (Some ''K1'') 1 1 1]
     (new_blockchain ''node'' 0) = Some demo_tick_viewed_again"
    by (simp add: demo_tick_viewed_again_def demo_tick_viewed_def demo_tick_registered_def
        demo_genesis_def)
  show "map_option view_count (pets (pet_registry demo_tick_viewed) demo_pid) = Some 1"
    by (simp add: demo_tick_viewed_eq)
  show "map_option view_count (pets (pet_registry demo_tick_viewed_again) demo_pid) = Some 0"
    by (simp add: demo_tick_viewed_again_def register_pet_pets demo_tick_pid
        demo_profile_fields)
  show "view_events (all_transactions demo_tick_viewed_again) demo_pid = [Some (JInt 1)]"
    by (simp add: demo_tick_viewed_again_ledger view_events_def is_view_of_simps
        profile_view_tx_count)
qed

subsection \<open>A registration that returns a registered id\<close>

text \<open>
  For any digest, serialiser and clock rendering: the id that \<^verbatim>\<open>register_pet\<close>
  returns is a function of the microchip id, the owner key and the first clock reading
  alone, so a second registration with the same three returns the same id, in any state.
  The profile under that id is then the new one (active, never viewed), and the ledger
  keeps every transaction it held.
\<close>

lemma register_pet_id:
  "fst (register_pet caps bc pd k t1 t2 t3) =
     generate_pet_id caps (dict_get_default pd ''microchip_id'' (Some ''NO_CHIP'')) k t1"
  by (simp add: register_pet_eq Let_def)

lemma register_pet_same_id:
  "dict_get_default pd' ''microchip_id'' (Some ''NO_CHIP'') =
     dict_get_default pd ''microchip_id'' (Some ''NO_CHIP'') \<Longrightarrow>
   fst (register_pet caps bc' pd' k t1 u2 u3) = fst (register_pet caps bc pd k t1 t2 t3)"
  by (simp add: register_pet_id)

lemma register_pet_replaces:
  "map_option status
     (pets (pet_registry (snd (register_pet caps bc pd k t1 t2 t3)))
        (fst (register_pet caps bc pd k t1 t2 t3))) = Some Active"
  "map_option view_count
     (pets (pet_registry (snd (register_pet caps bc pd k t1 t2 t3)))
        (fst (register_pet caps bc pd k t1 t2 t3))) = Some 0"
  "all_transactions (snd (register_pet caps bc pd k t1 t2 t3)) =
     all_transactions bc @
       [registration_tx caps (fst (register_pet caps bc pd k t1 t2 t3)) pd k t3]"
  by (simp_all add: register_pet_pets new_profile_status demo_profile_fields)
     (simp add: register_pet_eq Let_def all_transactions_pool_snoc)

end
